theory Spec2Isabelle
  imports Main "HOL-Library.Sublist"
begin

section \<open>Python values and exceptions\<close>

text \<open>
  The exceptions the modelled code can raise. \<open>AttributeError\<close> and \<open>TypeError\<close> come from
  operating on a loaded state of the wrong shape, \<open>UnicodeDecodeError\<close> from
  \<^verbatim>\<open>Path.read_text\<close> on bytes that are not text.
\<close>

datatype pyerr = AttributeError | TypeError | UnicodeDecodeError

text \<open>
  What \<^verbatim>\<open>json.loads\<close> can return: \<^verbatim>\<open>None\<close>, a bool, an int, a str, a list or a dict.
  A dict keeps its insertion order, so it is an association list (keys distinct when it
  comes out of the parser). Numbers are restricted to integers: the state file holds
  option ids, and no function of the program computes with numbers.
\<close>

datatype json =
    JNull
  | JBool bool
  | JInt int
  | JStr string
  | JArr "json list"
  | JObj "(string \<times> json) list"

text \<open>\<^verbatim>\<open>d[k] = v\<close> on a dict: an existing key keeps its place, a new key goes last.\<close>

fun dict_set :: "(string \<times> json) list \<Rightarrow> string \<Rightarrow> json \<Rightarrow> (string \<times> json) list" where
  "dict_set [] k v = [(k, v)]"
| "dict_set ((k', v') # d) k v = (if k' = k then (k, v) # d else (k', v') # dict_set d k v)"

text \<open>\<^verbatim>\<open>sub in s\<close> on two strs: \<open>sub\<close> occurs in \<open>s\<close> as a contiguous run.\<close>

fun str_contains :: "string \<Rightarrow> string \<Rightarrow> bool" where
  "str_contains [] sub = (sub = [])"
| "str_contains (c # cs) sub = (prefix sub (c # cs) \<or> str_contains cs sub)"

text \<open>\<^verbatim>\<open>obj.get(key, default)\<close>: only a dict has the method.\<close>

definition py_get :: "json \<Rightarrow> string \<Rightarrow> json \<Rightarrow> pyerr + json" where
  "py_get obj key dflt =
     (case obj of
        JObj d \<Rightarrow> (case map_of d key of Some v \<Rightarrow> Inr v | None \<Rightarrow> Inr dflt)
      | _ \<Rightarrow> Inl AttributeError)"

text \<open>
  \<^verbatim>\<open>option_id in container\<close> for a str \<open>option_id\<close>: list membership by equality,
  substring test on a str, key membership on a dict, \<open>TypeError\<close> on anything else.
\<close>

definition py_in :: "string \<Rightarrow> json \<Rightarrow> pyerr + bool" where
  "py_in option_id container =
     (case container of
        JArr xs \<Rightarrow> Inr (JStr option_id \<in> set xs)
      | JStr s \<Rightarrow> Inr (str_contains s option_id)
      | JObj d \<Rightarrow> Inr (option_id \<in> fst ` set d)
      | _ \<Rightarrow> Inl TypeError)"

text \<open>\<^verbatim>\<open>list.remove(x)\<close>: drops the first element equal to \<open>x\<close>.\<close>

fun list_remove :: "json list \<Rightarrow> json \<Rightarrow> json list" where
  "list_remove [] x = []"
| "list_remove (y # ys) x = (if y = x then ys else y # list_remove ys x)"

text \<open>
  \<^verbatim>\<open>set(value)\<close>: the elements of a list (each must be hashable, which a list or a dict
  is not), the one-character strings of a str, the keys of a dict; \<open>TypeError\<close> for a
  value that is not iterable.
\<close>

definition hashable :: "json \<Rightarrow> bool" where
  "hashable v = (case v of JArr _ \<Rightarrow> False | JObj _ \<Rightarrow> False | _ \<Rightarrow> True)"

definition py_set :: "json \<Rightarrow> pyerr + json set" where
  "py_set v =
     (case v of
        JArr xs \<Rightarrow> (if list_all hashable xs then Inr (set xs) else Inl TypeError)
      | JStr s \<Rightarrow> Inr ((\<lambda>c. JStr [c]) ` set s)
      | JObj d \<Rightarrow> Inr ((\<lambda>kv. JStr (fst kv)) ` set d)
      | _ \<Rightarrow> Inl TypeError)"

section \<open>The state file and the outside world\<close>

text \<open>
  What the program can observe of \<^verbatim>\<open>STATE_FILE\<close>: it does not exist; it exists and
  \<^verbatim>\<open>read_text\<close> raises \<open>IOError\<close>; it exists and its bytes do not decode, so
  \<^verbatim>\<open>read_text\<close> raises \<open>UnicodeDecodeError\<close>; or it holds a text.
\<close>

datatype file_state = Absent | Unreadable | Undecodable | Text string

text \<open>
  The \<^verbatim>\<open>json\<close> module is a parameter of the model: \<open>loads\<close> answers \<open>None\<close> where
  \<^verbatim>\<open>json.loads\<close> raises \<open>JSONDecodeError\<close>, \<open>dumps\<close> is \<^verbatim>\<open>json.dumps(_, indent=2)\<close>.
\<close>

record codec =
  loads :: "string \<Rightarrow> json option"
  dumps :: "json \<Rightarrow> string"

text \<open>
  The world outside the user interface: the state file, the history of the values
  handed to \<^verbatim>\<open>save_state\<close> (one entry per write of the file), and the history of the
  child processes created, each with its argument vector and working directory.
\<close>

record world =
  state_file :: file_state
  saved :: "json list"
  spawned :: "(string list \<times> string) list"

definition fresh_world :: "file_state \<Rightarrow> world" where
  "fresh_world f = \<lparr>state_file = f, saved = [], spawned = []\<rparr>"

section \<open>utils/state.py\<close>

definition empty_state :: json where
  "empty_state = JObj [(''installed'', JArr [])]"

definition load_state :: "codec \<Rightarrow> world \<Rightarrow> pyerr + json" where
  "load_state c w =
     (case state_file w of
        Absent \<Rightarrow> Inr empty_state
      | Unreadable \<Rightarrow> Inr empty_state
      | Undecodable \<Rightarrow> Inl UnicodeDecodeError
      | Text t \<Rightarrow> (case loads c t of Some v \<Rightarrow> Inr v | None \<Rightarrow> Inr empty_state))"

definition save_state :: "codec \<Rightarrow> json \<Rightarrow> world \<Rightarrow> world" where
  "save_state c state w = w\<lparr>state_file := Text (dumps c state), saved := saved w @ [state]\<rparr>"

text \<open>
  \<^verbatim>\<open>state.setdefault("installed", []).append(option_id)\<close>: the value under the key (a new
  empty list, stored last, when the key is missing) must be a list; the id is appended
  to it in place.
\<close>

definition setdefault_append :: "(string \<times> json) list \<Rightarrow> string \<Rightarrow> pyerr + json" where
  "setdefault_append d option_id =
     (case map_of d ''installed'' of
        None \<Rightarrow> Inr (JObj (d @ [(''installed'', JArr [JStr option_id])]))
      | Some (JArr xs) \<Rightarrow> Inr (JObj (dict_set d ''installed'' (JArr (xs @ [JStr option_id]))))
      | Some _ \<Rightarrow> Inl AttributeError)"

definition mark_installed :: "codec \<Rightarrow> string \<Rightarrow> world \<Rightarrow> pyerr + world" where
  "mark_installed c option_id w =
     (case load_state c w of
        Inl e \<Rightarrow> Inl e
      | Inr state \<Rightarrow>
          (case py_get state ''installed'' (JArr []) of
             Inl e \<Rightarrow> Inl e
           | Inr cur \<Rightarrow>
               (case py_in option_id cur of
                  Inl e \<Rightarrow> Inl e
                | Inr True \<Rightarrow> Inr w
                | Inr False \<Rightarrow>
                    (case state of
                       JObj d \<Rightarrow>
                         (case setdefault_append d option_id of
                            Inl e \<Rightarrow> Inl e
                          | Inr state' \<Rightarrow> Inr (save_state c state' w))
                     | _ \<Rightarrow> Inl AttributeError))))"

text \<open>
  \<^verbatim>\<open>state["installed"].remove(option_id)\<close>, reached only when the id was found in the
  value under the key: a list loses the first occurrence, a str or a dict has no
  \<^verbatim>\<open>remove\<close>.
\<close>

definition index_remove :: "(string \<times> json) list \<Rightarrow> string \<Rightarrow> pyerr + json" where
  "index_remove d option_id =
     (case map_of d ''installed'' of
        Some (JArr xs) \<Rightarrow> Inr (JObj (dict_set d ''installed'' (JArr (list_remove xs (JStr option_id)))))
      | _ \<Rightarrow> Inl AttributeError)"

definition mark_uninstalled :: "codec \<Rightarrow> string \<Rightarrow> world \<Rightarrow> pyerr + world" where
  "mark_uninstalled c option_id w =
     (case load_state c w of
        Inl e \<Rightarrow> Inl e
      | Inr state \<Rightarrow>
          (case py_get state ''installed'' (JArr []) of
             Inl e \<Rightarrow> Inl e
           | Inr cur \<Rightarrow>
               (case py_in option_id cur of
                  Inl e \<Rightarrow> Inl e
                | Inr False \<Rightarrow> Inr w
                | Inr True \<Rightarrow>
                    (case state of
                       JObj d \<Rightarrow>
                         (case index_remove d option_id of
                            Inl e \<Rightarrow> Inl e
                          | Inr state' \<Rightarrow> Inr (save_state c state' w))
                     | _ \<Rightarrow> Inl AttributeError))))"

definition get_installed :: "codec \<Rightarrow> world \<Rightarrow> pyerr + json set" where
  "get_installed c w =
     (case load_state c w of
        Inl e \<Rightarrow> Inl e
      | Inr state \<Rightarrow>
          (case py_get state ''installed'' (JArr []) of
             Inl e \<Rightarrow> Inl e
           | Inr v \<Rightarrow> py_set v))"

section \<open>utils/installer.py\<close>

definition build_command :: "string \<Rightarrow> string list \<Rightarrow> bool \<Rightarrow> string list" where
  "build_command script_dir options uninstall =
     [script_dir @ ''/install''] @ (if uninstall then [''uninstall''] else []) @ options"


text \<open>
  What happens once \<^verbatim>\<open>create_subprocess_exec\<close> is called: \<open>Exited lines code\<close>, the
  child writes \<open>lines\<close> (already decoded; decoding with \<^verbatim>\<open>errors="replace"\<close> cannot
  fail) and ends with \<open>code\<close>; or \<open>Raised lines msg\<close>, an exception with text \<open>msg\<close>
  after \<open>lines\<close> were read (no line at all when the child cannot be started). The
  behaviour of the operating system, a function of the argument vector and the working
  directory, is a parameter.
\<close>

datatype proc_outcome = Exited "string list" int | Raised "string list" string

type_synonym os = "string list \<Rightarrow> string \<Rightarrow> proc_outcome"

text \<open>
  \<^verbatim>\<open>run_installation\<close> threads the state \<open>l\<close> that the output callback writes to. The
  result is the exit code, or the text of the exception that escapes.
\<close>

definition run_installation ::
  "os \<Rightarrow> string \<Rightarrow> string list \<Rightarrow> bool \<Rightarrow> (string \<Rightarrow> 'l \<Rightarrow> 'l) option \<Rightarrow> 'l \<times> world
     \<Rightarrow> (string + int) \<times> 'l \<times> world" where
  "run_installation os script_dir options uninstall output_callback lw =
     (let cmd0 = [script_dir @ ''/install''];
          cmd1 = (if uninstall then cmd0 @ [''uninstall''] else cmd0);
          cmd = cmd1 @ options;
          w' = (snd lw)\<lparr>spawned := spawned (snd lw) @ [(cmd, script_dir)]\<rparr>;
          emit = (\<lambda>lines. case output_callback of
                     None \<Rightarrow> fst lw
                   | Some cb \<Rightarrow> foldl (\<lambda>l line. cb line l) (fst lw) lines)
      in case os cmd script_dir of
           Exited lines code \<Rightarrow> (Inr code, emit lines, w')
         | Raised lines msg \<Rightarrow> (Inl msg, emit lines, w'))"

section \<open>Formatting helpers of Python\<close>

text \<open>\<^verbatim>\<open>sep.join(xs)\<close>.\<close>

fun join :: "string \<Rightarrow> string list \<Rightarrow> string" where
  "join sep [] = []"
| "join sep [x] = x"
| "join sep (x # y # ys) = x @ sep @ join sep (y # ys)"

text \<open>The decimal text of a number, as an f-string prints it.\<close>

fun str_nat :: "nat \<Rightarrow> string" where
  "str_nat n = (if n < 10 then [''0123456789'' ! n]
                else str_nat (n div 10) @ [''0123456789'' ! (n mod 10)])"

declare str_nat.simps [simp del]

definition str_int :: "int \<Rightarrow> string" where
  "str_int i = (if i < 0 then ''-'' @ str_nat (nat (- i)) else str_nat (nat i))"

definition newline :: string where
  "newline = [CHR 0x0A]"

section \<open>The json module, on the fragment the state file uses\<close>

text \<open>
  A model of \<^verbatim>\<open>json.dumps(_, indent=2)\<close> and \<^verbatim>\<open>json.loads\<close> to run the program on
  concrete files. The functions of the program take the module as a parameter; this
  instance covers \<^verbatim>\<open>null\<close>, booleans, integers, strings of code points below 256, arrays
  and objects. A number with a fraction or an exponent, \<^verbatim>\<open>NaN\<close>, \<^verbatim>\<open>Infinity\<close> and an
  escape above \<^verbatim>\<open>\u00ff\<close> are outside the fragment (\<open>json_loads\<close> answers \<open>None\<close> there).
  \<open>dumps_at\<close> escapes as \<^verbatim>\<open>ensure_ascii\<close> does and indents by two spaces per level, with
  \<^verbatim>\<open>","\<close> between items and \<^verbatim>\<open>": "\<close> after a key. The parser takes fuel; twice the
  length of the text is more than any parse needs, since each recursive call follows a
  bracket, a comma or a colon.
\<close>

definition dquote :: char where
  "dquote = CHR 0x22"

definition backslash :: char where
  "backslash = CHR 0x5C"

definition escape_char :: "char \<Rightarrow> string" where
  "escape_char c =
     (if c = dquote then [backslash, dquote]
      else if c = backslash then [backslash, backslash]
      else if c = CHR 0x0A then [backslash, CHR ''n'']
      else if c = CHR 0x0D then [backslash, CHR ''r'']
      else if c = CHR 0x09 then [backslash, CHR ''t'']
      else if c = CHR 0x08 then [backslash, CHR ''b'']
      else if c = CHR 0x0C then [backslash, CHR ''f'']
      else if 32 \<le> (of_char c :: nat) \<and> (of_char c :: nat) \<le> 126 then [c]
      else [backslash, CHR ''u'', CHR ''0'', CHR ''0'',
            ''0123456789abcdef'' ! ((of_char c :: nat) div 16),
            ''0123456789abcdef'' ! ((of_char c :: nat) mod 16)])"

definition quote :: "string \<Rightarrow> string" where
  "quote s = [dquote] @ concat (map escape_char s) @ [dquote]"

definition nl_indent :: "nat \<Rightarrow> string" where
  "nl_indent lvl = newline @ replicate (2 * lvl) CHR '' ''"

fun dumps_at :: "nat \<Rightarrow> json \<Rightarrow> string" where
  "dumps_at lvl JNull = ''null''"
| "dumps_at lvl (JBool b) = (if b then ''true'' else ''false'')"
| "dumps_at lvl (JInt i) = str_int i"
| "dumps_at lvl (JStr s) = quote s"
| "dumps_at lvl (JArr xs) =
     (if xs = [] then ''[]''
      else ''['' @ nl_indent (Suc lvl)
           @ join ('','' @ nl_indent (Suc lvl)) (map (dumps_at (Suc lvl)) xs)
           @ nl_indent lvl @ '']'')"
| "dumps_at lvl (JObj d) =
     (if d = [] then ''{}''
      else ''{'' @ nl_indent (Suc lvl)
           @ join ('','' @ nl_indent (Suc lvl))
               (map (\<lambda>kv. quote (fst kv) @ '': '' @ dumps_at (Suc lvl) (snd kv)) d)
           @ nl_indent lvl @ ''}'')"

definition json_dumps :: "json \<Rightarrow> string" where
  "json_dumps v = dumps_at 0 v"

definition is_ws :: "char \<Rightarrow> bool" where
  "is_ws c = (c = CHR '' '' \<or> c = CHR 0x09 \<or> c = CHR 0x0A \<or> c = CHR 0x0D)"

definition skip_ws :: "string \<Rightarrow> string" where
  "skip_ws s = dropWhile is_ws s"

definition is_digit :: "char \<Rightarrow> bool" where
  "is_digit c = (48 \<le> (of_char c :: nat) \<and> (of_char c :: nat) \<le> 57)"

definition hex_val :: "char \<Rightarrow> nat option" where
  "hex_val c =
     (let n = (of_char c :: nat) in
      if 48 \<le> n \<and> n \<le> 57 then Some (n - 48)
      else if 97 \<le> n \<and> n \<le> 102 then Some (n - 87)
      else if 65 \<le> n \<and> n \<le> 70 then Some (n - 55)
      else None)"

definition hex4 :: "char \<Rightarrow> char \<Rightarrow> char \<Rightarrow> char \<Rightarrow> char option" where
  "hex4 a b x y =
     (case (hex_val a, hex_val b, hex_val x, hex_val y) of
        (Some h3, Some h2, Some h1, Some h0) \<Rightarrow>
          (if h3 = 0 \<and> h2 = 0 then Some (char_of (16 * h1 + h0)) else None)
      | _ \<Rightarrow> None)"

definition unescape :: "char \<Rightarrow> char option" where
  "unescape e =
     (if e = dquote then Some dquote
      else if e = backslash then Some backslash
      else if e = CHR ''/'' then Some CHR ''/''
      else if e = CHR ''n'' then Some (CHR 0x0A)
      else if e = CHR ''r'' then Some (CHR 0x0D)
      else if e = CHR ''t'' then Some (CHR 0x09)
      else if e = CHR ''b'' then Some (CHR 0x08)
      else if e = CHR ''f'' then Some (CHR 0x0C)
      else None)"

fun parse_str :: "string \<Rightarrow> string \<Rightarrow> (string \<times> string) option" where
  "parse_str acc [] = None"
| "parse_str acc [c] = (if c = dquote then Some (rev acc, []) else None)"
| "parse_str acc (c # e # cs) =
     (if c = dquote then Some (rev acc, e # cs)
      else if c = backslash then
        (if e = CHR ''u'' then
           (case cs of
              a # b # x # y # r \<Rightarrow>
                (case hex4 a b x y of Some ch \<Rightarrow> parse_str (ch # acc) r | None \<Rightarrow> None)
            | _ \<Rightarrow> None)
         else (case unescape e of Some ch \<Rightarrow> parse_str (ch # acc) cs | None \<Rightarrow> None))
      else if (of_char c :: nat) < 32 then None
      else parse_str (c # acc) (e # cs))"

definition digits_val :: "string \<Rightarrow> nat" where
  "digits_val ds = foldl (\<lambda>a c. 10 * a + ((of_char c :: nat) - 48)) 0 ds"

definition starts_float :: "string \<Rightarrow> bool" where
  "starts_float r = (case r of [] \<Rightarrow> False | c # _ \<Rightarrow> c = CHR ''.'' \<or> c = CHR ''e'' \<or> c = CHR ''E'')"

definition parse_nat :: "string \<Rightarrow> (nat \<times> string) option" where
  "parse_nat s =
     (case s of
        [] \<Rightarrow> None
      | c # cs \<Rightarrow>
          if c = CHR ''0'' then (if starts_float cs then None else Some (0, cs))
          else if is_digit c then
            (let ds = takeWhile is_digit s; r = dropWhile is_digit s
             in if starts_float r then None else Some (digits_val ds, r))
          else None)"

definition parse_number :: "string \<Rightarrow> (json \<times> string) option" where
  "parse_number s =
     (case s of
        [] \<Rightarrow> None
      | c # cs \<Rightarrow>
          if c = CHR ''-'' then map_option (\<lambda>nr. (JInt (- int (fst nr)), snd nr)) (parse_nat cs)
          else map_option (\<lambda>nr. (JInt (int (fst nr)), snd nr)) (parse_nat s))"

fun parse_value :: "nat \<Rightarrow> string \<Rightarrow> (json \<times> string) option"
  and parse_elems :: "nat \<Rightarrow> json list \<Rightarrow> string \<Rightarrow> (json \<times> string) option"
  and parse_members :: "nat \<Rightarrow> (string \<times> json) list \<Rightarrow> string \<Rightarrow> (json \<times> string) option" where
  "parse_value 0 s = None"
| "parse_value (Suc n) s =
     (case s of
        [] \<Rightarrow> None
      | c # cs \<Rightarrow>
          if c = dquote then map_option (\<lambda>tr. (JStr (fst tr), snd tr)) (parse_str [] cs)
          else if c = CHR ''['' then
            (case skip_ws cs of
               [] \<Rightarrow> None
             | c' # r \<Rightarrow> if c' = CHR '']'' then Some (JArr [], r) else parse_elems n [] (c' # r))
          else if c = CHR ''{'' then
            (case skip_ws cs of
               [] \<Rightarrow> None
             | c' # r \<Rightarrow> if c' = CHR ''}'' then Some (JObj [], r) else parse_members n [] (c' # r))
          else if prefix ''null'' s then Some (JNull, drop 4 s)
          else if prefix ''true'' s then Some (JBool True, drop 4 s)
          else if prefix ''false'' s then Some (JBool False, drop 5 s)
          else parse_number s)"
| "parse_elems 0 acc s = None"
| "parse_elems (Suc n) acc s =
     (case parse_value n s of
        None \<Rightarrow> None
      | Some (v, r) \<Rightarrow>
          (case skip_ws r of
             [] \<Rightarrow> None
           | c # r' \<Rightarrow>
               if c = CHR '','' then parse_elems n (acc @ [v]) (skip_ws r')
               else if c = CHR '']'' then Some (JArr (acc @ [v]), r')
               else None))"
| "parse_members 0 acc s = None"
| "parse_members (Suc n) acc s =
     (case s of
        [] \<Rightarrow> None
      | q # cs \<Rightarrow>
          if q \<noteq> dquote then None
          else
            (case parse_str [] cs of
               None \<Rightarrow> None
             | Some (k, r) \<Rightarrow>
                 (case skip_ws r of
                    [] \<Rightarrow> None
                  | c # r' \<Rightarrow>
                      if c \<noteq> CHR '':'' then None
                      else
                        (case parse_value n (skip_ws r') of
                           None \<Rightarrow> None
                         | Some (v, r'') \<Rightarrow>
                             (case skip_ws r'' of
                                [] \<Rightarrow> None
                              | c' # r3 \<Rightarrow>
                                  if c' = CHR '','' then parse_members n (dict_set acc k v) (skip_ws r3)
                                  else if c' = CHR ''}'' then Some (JObj (dict_set acc k v), r3)
                                  else None)))))"

definition json_loads :: "string \<Rightarrow> json option" where
  "json_loads s =
     (case parse_value (2 * length s + 2) (skip_ws s) of
        None \<Rightarrow> None
      | Some (v, r) \<Rightarrow> if skip_ws r = [] then Some v else None)"

definition py_json :: codec where
  "py_json = \<lparr>loads = json_loads, dumps = json_dumps\<rparr>"

section \<open>data/options.py\<close>

record InstallOption =
  option_id :: string
  name :: string
  description :: string
  category :: string
  requires_reboot :: bool
  excluded_from_all :: bool
  aliases :: "string list"

definition mk_option :: "string \<Rightarrow> string \<Rightarrow> string \<Rightarrow> string \<Rightarrow> InstallOption" where
  "mk_option i n d c =
     \<lparr>option_id = i, name = n, description = d, category = c, requires_reboot = False,
      excluded_from_all = False, aliases = []\<rparr>"

definition OPTIONS :: "InstallOption list" where
  "OPTIONS =
     [mk_option ''claude'' ''Claude Code'' (''Anthropic'' @ [CHR 0x27] @ ''s AI coding assistant CLI'') ''AI Tools'',
      mk_option ''codex'' ''Codex CLI'' (''OpenAI'' @ [CHR 0x27] @ ''s Codex command-line interface'') ''AI Tools'',
      mk_option ''screensaver'' ''Custom Screensaver'' ''Personalized ASCII art screensaver'' ''Customization'',
      (mk_option ''plymouth'' ''Plymouth Theme'' ''Cybex boot splash theme'' ''System'')
        \<lparr>requires_reboot := True\<rparr>,
      mk_option ''fish'' ''Fish Shell'' ''Modern shell with Starship prompt'' ''Shell'',
      (mk_option ''hyprland'' ''Hyprland Bindings'' ''Custom key bindings and input config'' ''Desktop'')
        \<lparr>aliases := [''hyprland-bindings'']\<rparr>,
      mk_option ''waycorner'' ''Hot Corners'' ''macOS-style hot corners for Hyprland'' ''Desktop'',
      mk_option ''waybar'' ''Waybar Idle Toggle'' ''Click to toggle idle lock indicator'' ''Desktop'',
      (mk_option ''ssh'' ''SSH Key'' ''Generate SSH key for GitHub'' ''Security'')
        \<lparr>aliases := [''ssh-key'']\<rparr>,
      (mk_option ''passwordless-sudo'' ''Passwordless Sudo'' ''Enable passwordless sudo for user'' ''Security'')
        \<lparr>excluded_from_all := True\<rparr>,
      mk_option ''brave'' ''Brave Browser'' ''Privacy-focused browser as default'' ''Applications'',
      (mk_option ''mainline'' ''Mainline Kernel'' ''Latest mainline Linux kernel'' ''System'')
        \<lparr>requires_reboot := True, excluded_from_all := True\<rparr>,
      (mk_option ''noctalia'' ''Noctalia Shell'' ''Modern desktop shell (replaces Waybar)'' ''Desktop'')
        \<lparr>aliases := [''noctalia-shell'']\<rparr>,
      mk_option ''looknfeel'' ''Animations'' ''Improved Hyprland window animations'' ''Customization'']"

definition get_options_for_all :: "InstallOption list" where
  "get_options_for_all = filter (\<lambda>opt. \<not> excluded_from_all opt) OPTIONS"

section \<open>widgets/option_list.py\<close>

text \<open>
  An item of the list: its option, the private flag \<^verbatim>\<open>_is_installed\<close>, and the two
  reactive fields. The watchers only redraw the row, so assigning a field is all that
  is modelled.
\<close>

record OptionItem =
  option :: InstallOption
  is_installed :: bool
  selected :: bool
  status :: string

text \<open>The message \<^verbatim>\<open>OptionItem.Selected(option_id, selected)\<close>.\<close>

datatype message = Selected string bool

definition OptionItem_init :: "InstallOption \<Rightarrow> bool \<Rightarrow> OptionItem" where
  "OptionItem_init opt inst =
     \<lparr>option = opt, is_installed = inst, selected = False, status = ''pending''\<rparr>"

text \<open>\<^verbatim>\<open>toggle_selection\<close> returns the item and the message it posts.\<close>

definition toggle_selection :: "OptionItem \<Rightarrow> OptionItem \<times> message" where
  "toggle_selection item =
     (item\<lparr>selected := \<not> selected item\<rparr>,
      Selected (option_id (option item)) (\<not> selected item))"

definition set_installed :: "OptionItem \<Rightarrow> bool \<Rightarrow> OptionItem" where
  "set_installed item inst =
     (if inst then item\<lparr>is_installed := inst, status := ''installed''\<rparr>
      else item\<lparr>is_installed := inst, status := ''pending''\<rparr>)"

text \<open>
  The list widget: the set it was given, the dict \<^verbatim>\<open>_options_map\<close> in insertion order, and
  the messages its items have posted so far, oldest first.
\<close>

record OptionList =
  installed :: "json set"
  options_map :: "(string \<times> OptionItem) list"
  posted :: "message list"

definition OptionList_init :: "json set \<Rightarrow> OptionList" where
  "OptionList_init inst = \<lparr>installed = inst, options_map = [], posted = []\<rparr>"

text \<open>\<^verbatim>\<open>self._options_map[option.id] = item\<close>, with the dict's rule for an existing key.\<close>

fun map_set :: "(string \<times> OptionItem) list \<Rightarrow> string \<Rightarrow> OptionItem \<Rightarrow> (string \<times> OptionItem) list" where
  "map_set [] k v = [(k, v)]"
| "map_set ((k', v') # d) k v = (if k' = k then (k, v) # d else (k', v') # map_set d k v)"

text \<open>\<^verbatim>\<open>OptionList.compose\<close>, over the catalog it iterates.\<close>

fun compose_items :: "InstallOption list \<Rightarrow> OptionList \<Rightarrow> OptionList" where
  "compose_items [] ol = ol"
| "compose_items (opt # rest) ol =
     compose_items rest
       (ol\<lparr>options_map :=
             map_set (options_map ol) (option_id opt)
               (OptionItem_init opt (JStr (option_id opt) \<in> installed ol))\<rparr>)"

definition OptionList_compose :: "OptionList \<Rightarrow> OptionList" where
  "OptionList_compose ol = compose_items OPTIONS ol"

definition get_selected_options :: "OptionList \<Rightarrow> string list" where
  "get_selected_options ol = map fst (filter (\<lambda>kv. selected (snd kv)) (options_map ol))"

text \<open>
  The loop of \<^verbatim>\<open>select_all\<close> over the items of the dict: the rows after the loop and the
  messages posted by it.
\<close>

fun select_all_loop ::
  "bool \<Rightarrow> (string \<times> OptionItem) list \<Rightarrow> (string \<times> OptionItem) list \<times> message list" where
  "select_all_loop exclude_special [] = ([], [])"
| "select_all_loop exclude_special ((opt_id, item) # rest) =
     (let (rest', msgs) = select_all_loop exclude_special rest in
      if exclude_special \<and> excluded_from_all (option item) then ((opt_id, item) # rest', msgs)
      else if \<not> selected item
           then ((opt_id, fst (toggle_selection item)) # rest', snd (toggle_selection item) # msgs)
           else ((opt_id, item) # rest', msgs))"

definition select_all :: "OptionList \<Rightarrow> bool \<Rightarrow> OptionList" where
  "select_all ol exclude_special =
     (let (m, msgs) = select_all_loop exclude_special (options_map ol)
      in ol\<lparr>options_map := m, posted := posted ol @ msgs\<rparr>)"

fun deselect_all_loop ::
  "(string \<times> OptionItem) list \<Rightarrow> (string \<times> OptionItem) list \<times> message list" where
  "deselect_all_loop [] = ([], [])"
| "deselect_all_loop ((opt_id, item) # rest) =
     (let (rest', msgs) = deselect_all_loop rest in
      if selected item
      then ((opt_id, fst (toggle_selection item)) # rest', snd (toggle_selection item) # msgs)
      else ((opt_id, item) # rest', msgs))"

definition deselect_all :: "OptionList \<Rightarrow> OptionList" where
  "deselect_all ol =
     (let (m, msgs) = deselect_all_loop (options_map ol)
      in ol\<lparr>options_map := m, posted := posted ol @ msgs\<rparr>)"

text \<open>\<^verbatim>\<open>self._options_map[option_id]\<close> changed by \<open>f\<close>, when the key is in the dict.\<close>

fun map_item :: "(OptionItem \<Rightarrow> OptionItem) \<Rightarrow> string \<Rightarrow> (string \<times> OptionItem) list
    \<Rightarrow> (string \<times> OptionItem) list" where
  "map_item f k [] = []"
| "map_item f k ((k', v) # d) = (if k' = k then (k', f v) # d else (k', v) # map_item f k d)"

definition set_option_status :: "OptionList \<Rightarrow> string \<Rightarrow> string \<Rightarrow> OptionList" where
  "set_option_status ol opt_id st =
     ol\<lparr>options_map := map_item (\<lambda>item. item\<lparr>status := st\<rparr>) opt_id (options_map ol)\<rparr>"

definition mark_option_installed :: "OptionList \<Rightarrow> string \<Rightarrow> OptionList" where
  "mark_option_installed ol opt_id =
     ol\<lparr>options_map :=
          map_item (\<lambda>item. (set_installed item True)\<lparr>selected := False\<rparr>) opt_id (options_map ol)\<rparr>"

definition mark_option_uninstalled :: "OptionList \<Rightarrow> string \<Rightarrow> OptionList" where
  "mark_option_uninstalled ol opt_id =
     ol\<lparr>options_map := map_item (\<lambda>item. set_installed item False) opt_id (options_map ol)\<rparr>"

text \<open>
  A key press on the highlighted row (\<^verbatim>\<open>action_toggle\<close>, \<^verbatim>\<open>on_list_item_selected\<close>): that
  item toggles and its message is posted.
\<close>

definition toggle_item :: "OptionList \<Rightarrow> string \<Rightarrow> OptionList" where
  "toggle_item ol opt_id =
     (case map_of (options_map ol) opt_id of
        None \<Rightarrow> ol
      | Some item \<Rightarrow>
          ol\<lparr>options_map := map_item (\<lambda>i. fst (toggle_selection i)) opt_id (options_map ol),
             posted := posted ol @ [snd (toggle_selection item)]\<rparr>)"


section \<open>screens/install_modal.py\<close>

text \<open>
  The modal screen: its constructor fields, the lines written to the \<^verbatim>\<open>RichLog\<close>, whether
  the Close button is disabled, and the value handed to \<^verbatim>\<open>dismiss\<close> once the screen has
  been dismissed.
\<close>

record InstallModal =
  script_dir :: string
  options :: "string list"
  uninstall :: bool
  success :: bool
  completed :: bool
  output_log :: "string list"
  close_disabled :: bool
  dismissed :: "bool option"

definition InstallModal_init :: "string \<Rightarrow> string list \<Rightarrow> bool \<Rightarrow> InstallModal" where
  "InstallModal_init d opts u =
     \<lparr>script_dir = d, options = opts, uninstall = u, success = False, completed = False,
      output_log = [], close_disabled = True, dismissed = None\<rparr>"

definition convert_ansi_to_rich :: "string \<Rightarrow> string" where
  "convert_ansi_to_rich text = text"

definition output_handler :: "string \<Rightarrow> string list \<Rightarrow> string list" where
  "output_handler line lg = lg @ [convert_ansi_to_rich line]"

text \<open>The first line the worker writes: the command, as \<^verbatim>\<open>build_command\<close> gives it.\<close>

definition preview_line :: "InstallModal \<Rightarrow> string" where
  "preview_line m =
     ''[dim cyan]$ '' @ join '' '' (build_command (script_dir m) (options m) (uninstall m))
       @ ''[/dim cyan]'' @ newline @ newline"

text \<open>What the worker does once \<^verbatim>\<open>run_installation\<close> has returned or raised.\<close>

definition finish_task :: "string + int \<Rightarrow> InstallModal \<Rightarrow> InstallModal" where
  "finish_task r m =
     (case r of
        Inr exit_code \<Rightarrow>
          m\<lparr>success := (exit_code = 0), completed := True,
            output_log := output_log m @
              [if exit_code = 0
               then newline @ ''[bold green]Installation completed successfully![/bold green]'' @ newline
               else newline @ ''[bold red]Installation failed (exit code: '' @ str_int exit_code
                      @ '')[/bold red]'' @ newline],
            close_disabled := False\<rparr>
      | Inl e \<Rightarrow>
          m\<lparr>success := False, completed := True,
            output_log := output_log m @ [newline @ ''[bold red]Error: '' @ e @ ''[/bold red]'' @ newline],
            close_disabled := False\<rparr>)"

definition run_installation_task :: "os \<Rightarrow> InstallModal \<Rightarrow> world \<Rightarrow> InstallModal \<times> world" where
  "run_installation_task os m w =
     (let lg = output_log m @ [preview_line m];
          (r, lg', w') =
            run_installation os (script_dir m) (options m) (uninstall m) (Some output_handler) (lg, w)
      in (finish_task r (m\<lparr>output_log := lg'\<rparr>), w'))"

definition dismiss :: "InstallModal \<Rightarrow> bool \<Rightarrow> InstallModal" where
  "dismiss m result = m\<lparr>dismissed := Some result\<rparr>"

definition on_button_pressed :: "InstallModal \<Rightarrow> string \<Rightarrow> InstallModal" where
  "on_button_pressed m button_id = (if button_id = ''close-btn'' then dismiss m (success m) else m)"

definition action_cancel :: "InstallModal \<Rightarrow> InstallModal" where
  "action_cancel m = (if completed m then dismiss m (success m) else m)"

text \<open>
  The life of the modal as the event loop sees it. The worker starts by writing the
  command line, then each line of the child is appended while the child runs, and the
  worker ends by recording the outcome; the escape key can arrive at any moment; a
  press of the Close button is delivered only while the button is enabled (a disabled
  button posts no \<^verbatim>\<open>Pressed\<close> message); nothing is delivered to a dismissed screen.
\<close>

datatype phase = Mounted | Streaming | Ended

inductive modal_run :: "phase \<times> InstallModal \<Rightarrow> phase \<times> InstallModal \<Rightarrow> bool" where
  start: "modal_run (Mounted, m) (Streaming, m\<lparr>output_log := output_log m @ [preview_line m]\<rparr>)"
| line: "modal_run (Streaming, m) (Streaming, m\<lparr>output_log := output_handler l (output_log m)\<rparr>)"
| finish: "modal_run (Streaming, m) (Ended, finish_task r m)"
| escape: "dismissed m = None \<Longrightarrow> modal_run (p, m) (p, action_cancel m)"
| press: "dismissed m = None \<Longrightarrow> \<not> close_disabled m \<Longrightarrow> modal_run (p, m) (p, on_button_pressed m ''close-btn'')"

inductive reachable :: "string \<Rightarrow> string list \<Rightarrow> bool \<Rightarrow> phase \<times> InstallModal \<Rightarrow> bool" where
  init: "reachable d opts u (Mounted, InstallModal_init d opts u)"
| step: "reachable d opts u s \<Longrightarrow> modal_run s s' \<Longrightarrow> reachable d opts u s'"

section \<open>screens/main_screen.py\<close>

record MainScreen =
  main_script_dir :: string
  option_list :: OptionList
  status_bar :: string

definition ready_text :: string where
  "ready_text = ''[cyan]Ready[/cyan] - Select options to install''"

definition MainScreen_compose :: "codec \<Rightarrow> string \<Rightarrow> world \<Rightarrow> pyerr + MainScreen" where
  "MainScreen_compose c d w =
     (case get_installed c w of
        Inl e \<Rightarrow> Inl e
      | Inr inst \<Rightarrow>
          Inr \<lparr>main_script_dir = d,
               option_list = OptionList_compose (OptionList_init inst),
               status_bar = ready_text\<rparr>)"

definition set_status :: "MainScreen \<Rightarrow> string \<Rightarrow> MainScreen" where
  "set_status ms text = ms\<lparr>status_bar := text\<rparr>"

definition update_status :: "MainScreen \<Rightarrow> MainScreen" where
  "update_status ms =
     (let sel = get_selected_options (option_list ms) in
      if sel \<noteq> [] then set_status ms (''[cyan]'' @ str_nat (length sel) @ '' option(s) selected[/cyan]'')
      else set_status ms ready_text)"

definition action_select_all :: "MainScreen \<Rightarrow> MainScreen" where
  "action_select_all ms = update_status (ms\<lparr>option_list := select_all (option_list ms) True\<rparr>)"

definition action_deselect_all :: "MainScreen \<Rightarrow> MainScreen" where
  "action_deselect_all ms = update_status (ms\<lparr>option_list := deselect_all (option_list ms)\<rparr>)"

text \<open>
  \<^verbatim>\<open>action_install\<close> up to \<^verbatim>\<open>push_screen\<close>: the screen with its new status line, and the
  modal pushed (none when nothing is selected). The callback \<^verbatim>\<open>on_complete\<close> closes over
  \<^verbatim>\<open>selected\<close>, the list also given to the modal.
\<close>

definition action_install :: "MainScreen \<Rightarrow> MainScreen \<times> InstallModal option" where
  "action_install ms =
     (let sel = get_selected_options (option_list ms) in
      if sel = [] then (set_status ms ''[yellow]No options selected[/yellow]'', None)
      else (set_status ms (''[cyan]Installing '' @ str_nat (length sel) @ '' option(s)...[/cyan]''),
            Some (InstallModal_init (main_script_dir ms) sel False)))"

definition action_uninstall :: "MainScreen \<Rightarrow> MainScreen \<times> InstallModal option" where
  "action_uninstall ms =
     (let sel = get_selected_options (option_list ms) in
      if sel = [] then (set_status ms ''[yellow]No options selected[/yellow]'', None)
      else (set_status ms (''[cyan]Uninstalling '' @ str_nat (length sel) @ '' option(s)...[/cyan]''),
            Some (InstallModal_init (main_script_dir ms) sel True)))"

text \<open>
  The loop of \<^verbatim>\<open>on_complete\<close> on success. An exception of \<^verbatim>\<open>mark_installed\<close> ends the
  callback where it stands: the result carries it, with the state reached so far.
\<close>

fun install_loop :: "codec \<Rightarrow> string list \<Rightarrow> MainScreen \<times> world \<Rightarrow> (MainScreen \<times> world) \<times> pyerr option" where
  "install_loop c [] s = (s, None)"
| "install_loop c (opt_id # rest) s =
     (case mark_installed c opt_id (snd s) of
        Inl e \<Rightarrow> (s, Some e)
      | Inr w' \<Rightarrow>
          install_loop c rest
            ((fst s)\<lparr>option_list := mark_option_installed (option_list (fst s)) opt_id\<rparr>, w'))"

fun uninstall_loop :: "codec \<Rightarrow> string list \<Rightarrow> MainScreen \<times> world \<Rightarrow> (MainScreen \<times> world) \<times> pyerr option" where
  "uninstall_loop c [] s = (s, None)"
| "uninstall_loop c (opt_id # rest) s =
     (case mark_uninstalled c opt_id (snd s) of
        Inl e \<Rightarrow> (s, Some e)
      | Inr w' \<Rightarrow>
          uninstall_loop c rest
            ((fst s)\<lparr>option_list := mark_option_uninstalled (option_list (fst s)) opt_id\<rparr>, w'))"

definition on_complete_install ::
  "codec \<Rightarrow> string list \<Rightarrow> bool \<Rightarrow> MainScreen \<times> world \<Rightarrow> (MainScreen \<times> world) \<times> pyerr option" where
  "on_complete_install c sel ok s =
     (if ok then
        (case install_loop c sel s of
           (s', Some e) \<Rightarrow> (s', Some e)
         | (s', None) \<Rightarrow>
             ((set_status (fst s') (''[green]Installed '' @ str_nat (length sel) @ '' option(s)[/green]''),
               snd s'), None))
      else ((set_status (fst s) ''[red]Installation failed[/red]'', snd s), None))"

definition on_complete_uninstall ::
  "codec \<Rightarrow> string list \<Rightarrow> bool \<Rightarrow> MainScreen \<times> world \<Rightarrow> (MainScreen \<times> world) \<times> pyerr option" where
  "on_complete_uninstall c sel ok s =
     (if ok then
        (case uninstall_loop c sel s of
           (s', Some e) \<Rightarrow> (s', Some e)
         | (s', None) \<Rightarrow>
             ((set_status (fst s') (''[green]Uninstalled '' @ str_nat (length sel) @ '' option(s)[/green]''),
               snd s'), None))
      else ((set_status (fst s) ''[red]Uninstall failed[/red]'', snd s), None))"

text \<open>
  One run from the key press to the end of the callback: \<^verbatim>\<open>push_screen\<close> mounts the
  modal, whose worker runs the installer to its end; the user then closes the modal
  (Close button or escape, both dismiss with \<^verbatim>\<open>self.success\<close>), and the framework calls
  \<^verbatim>\<open>on_complete\<close> with the value passed to \<^verbatim>\<open>dismiss\<close>.
\<close>

definition install_run ::
  "codec \<Rightarrow> os \<Rightarrow> MainScreen \<times> world \<Rightarrow> (MainScreen \<times> world) \<times> pyerr option" where
  "install_run c os s =
     (case action_install (fst s) of
        (ms, None) \<Rightarrow> ((ms, snd s), None)
      | (ms, Some m) \<Rightarrow>
          (let (m', w') = run_installation_task os m (snd s) in
           case dismissed (action_cancel m') of
             None \<Rightarrow> ((ms, w'), None)
           | Some ok \<Rightarrow> on_complete_install c (options m) ok (ms, w')))"

definition uninstall_run ::
  "codec \<Rightarrow> os \<Rightarrow> MainScreen \<times> world \<Rightarrow> (MainScreen \<times> world) \<times> pyerr option" where
  "uninstall_run c os s =
     (case action_uninstall (fst s) of
        (ms, None) \<Rightarrow> ((ms, snd s), None)
      | (ms, Some m) \<Rightarrow>
          (let (m', w') = run_installation_task os m (snd s) in
           case dismissed (action_cancel m') of
             None \<Rightarrow> ((ms, w'), None)
           | Some ok \<Rightarrow> on_complete_uninstall c (options m) ok (ms, w')))"


section \<open>Derived notions used in the statements\<close>

text \<open>
  The world after a call of \<open>mark_installed\<close> or \<open>mark_uninstalled\<close> made in world \<open>w\<close>:
  both raise only before they write, so a call that raises leaves \<open>w\<close>.
\<close>

definition settle :: "pyerr + world \<Rightarrow> world \<Rightarrow> world" where
  "settle r w = (case r of Inl e \<Rightarrow> w | Inr w' \<Rightarrow> w')"

text \<open>\<^verbatim>\<open>save_state(load_state())\<close>, the composition the round-trip property speaks of.\<close>

definition save_load :: "codec \<Rightarrow> world \<Rightarrow> world" where
  "save_load c w = (case load_state c w of Inl e \<Rightarrow> w | Inr state \<Rightarrow> save_state c state w)"

text \<open>The state that holds a set of ids, listed in some order: \<^verbatim>\<open>{"installed": [...]}\<close>.\<close>

definition installed_state :: "string list \<Rightarrow> json" where
  "installed_state ids = JObj [(''installed'', JArr (map JStr ids))]"

text \<open>A state file with a key besides \<^verbatim>\<open>installed\<close>, as \<^verbatim>\<open>save_state\<close> would have written it.\<close>

definition sample_state :: json where
  "sample_state = JObj [(''version'', JInt 1), (''installed'', JArr [JStr ''claude''])]"

definition sample_world :: world where
  "sample_world = fresh_world (Text (json_dumps sample_state))"

text \<open>A state file holding the empty state in compact form, \<^verbatim>\<open>{"installed":[]}\<close>.\<close>

definition compact_world :: world where
  "compact_world = fresh_world (Text (''{'' @ [dquote] @ ''installed'' @ [dquote] @ '':[]}''))"

text \<open>
  The list as the main screen composes it on a first run (nothing installed), and the
  same list after the user has toggled the row of the mainline kernel, an option that
  is excluded from "select all".
\<close>

definition first_list :: OptionList where
  "first_list = OptionList_compose (OptionList_init {})"

definition mainline_list :: OptionList where
  "mainline_list = toggle_item first_list ''mainline''"


text \<open>
  The main screen of a first run in which the user has toggled the rows \<^verbatim>\<open>claude\<close> and
  \<^verbatim>\<open>fish\<close>.
\<close>

definition sample_screen :: MainScreen where
  "sample_screen =
     \<lparr>main_script_dir = ''/d'',
      option_list = toggle_item (toggle_item first_list ''claude'') ''fish'',
      status_bar = ready_text\<rparr>"


definition failing_os :: os where
  "failing_os argv cwd = Exited [''boom''] 1"

section \<open>Command construction\<close>

text \<open>
  C5. \<open>build_command\<close> returns the path of the installer inside the script directory,
  then the single word \<open>uninstall\<close> exactly in uninstall mode, then the option ids in
  the order given; in particular \<open>build_command "/d" ["a","b"] False\<close> is
  \<open>["/d/install","a","b"]\<close> and \<open>build_command "/d" ["a"] True\<close> is
  \<open>["/d/install","uninstall","a"]\<close>.
\<close>

theorem build_command_spec:
  "build_command d opts False = (d @ ''/install'') # opts
   \<and> build_command d opts True = (d @ ''/install'') # ''uninstall'' # opts
   \<and> build_command ''/d'' [''a'', ''b''] False = [''/d/install'', ''a'', ''b'']
   \<and> build_command ''/d'' [''a''] True = [''/d/install'', ''uninstall'', ''a'']"
  by (simp add: build_command_def)

section \<open>The runner and the state file: basic facts\<close>

lemma run_installation_spawned:
  "spawned (snd (snd (run_installation os d opts u cb (l, w))))
     = spawned w @ [(build_command d opts u, d)]"
  by (simp add: run_installation_def build_command_def Let_def split: proc_outcome.split)

lemma run_installation_world:
  "snd (snd (run_installation os d opts u cb (l, w)))
     = w\<lparr>spawned := spawned w @ [(build_command d opts u, d)]\<rparr>"
  by (simp add: run_installation_def build_command_def Let_def split: proc_outcome.split)

lemma run_installation_result:
  "fst (run_installation os d opts u cb (l, w))
     = (case os (build_command d opts u) d of Exited ls code \<Rightarrow> Inr code | Raised ls msg \<Rightarrow> Inl msg)"
  by (simp add: run_installation_def build_command_def Let_def split: proc_outcome.split)

lemma run_installation_log:
  "fst (snd (run_installation os d opts u (Some cb) (l, w)))
     = foldl (\<lambda>l line. cb line l) l
         (case os (build_command d opts u) d of Exited ls code \<Rightarrow> ls | Raised ls msg \<Rightarrow> ls)"
  by (simp add: run_installation_def build_command_def Let_def split: proc_outcome.split)

lemma foldl_output_handler: "foldl (\<lambda>l line. output_handler line l) lg ls = lg @ map convert_ansi_to_rich ls"
  by (induction ls arbitrary: lg) (simp_all add: output_handler_def)

lemma task_world:
  "snd (run_installation_task os m w)
     = w\<lparr>spawned := spawned w @ [(build_command (script_dir m) (options m) (uninstall m), script_dir m)]\<rparr>"
  unfolding run_installation_task_def Let_def
  by (simp add: split_beta run_installation_world)

lemma output_log_finish_task: "\<exists>x. output_log (finish_task r m) = output_log m @ [x]"
  by (simp add: finish_task_def split: sum.split)

lemma task_log:
  "\<exists>rest. output_log (fst (run_installation_task os m w)) = output_log m @ preview_line m # rest"
proof -
  obtain r lg' w' where run:
    "run_installation os (script_dir m) (options m) (uninstall m) (Some output_handler)
       (output_log m @ [preview_line m], w) = (r, lg', w')"
    by (metis prod_cases3)
  have "lg' = fst (snd (run_installation os (script_dir m) (options m) (uninstall m)
                 (Some output_handler) (output_log m @ [preview_line m], w)))"
    by (simp add: run)
  then obtain ls where lg': "lg' = output_log m @ preview_line m # ls"
    by (simp add: run_installation_log foldl_output_handler)
  obtain x where "output_log (finish_task r (m\<lparr>output_log := lg'\<rparr>)) = lg' @ [x]"
    using output_log_finish_task[of r "m\<lparr>output_log := lg'\<rparr>"] by auto
  then show ?thesis
    by (simp add: run_installation_task_def run lg')
qed

lemma task_log_hd:
  "output_log m = [] \<Longrightarrow> hd (output_log (fst (run_installation_task os m w))) = preview_line m"
  using task_log[of os m w] by auto

lemma init_preview:
  "hd (output_log (fst (run_installation_task os (InstallModal_init d opts u) w)))
     = preview_line (InstallModal_init d opts u)"
  by (rule task_log_hd) (simp add: InstallModal_init_def)

text \<open>
  C6. The argument vector that \<open>run_installation\<close> hands to the child process, alone and
  as the modal's worker calls it, is the list \<open>build_command\<close> returns for the same script
  directory, option ids and mode, with the script directory as working directory; and
  the first line of the modal's log is the preview of that same list.
\<close>

theorem executed_command_is_build_command:
  "spawned (snd (snd (run_installation os d opts u cb (l, w))))
     = spawned w @ [(build_command d opts u, d)]
   \<and> spawned (snd (run_installation_task os (InstallModal_init d opts u) w))
     = spawned w @ [(build_command d opts u, d)]
   \<and> hd (output_log (fst (run_installation_task os (InstallModal_init d opts u) w)))
     = ''[dim cyan]$ '' @ join '' '' (build_command d opts u) @ ''[/dim cyan]'' @ newline @ newline"
proof -
  have "spawned (snd (run_installation_task os (InstallModal_init d opts u) w))
     = spawned w @ [(build_command d opts u, d)]"
    by (simp add: task_world InstallModal_init_def)
  moreover have "preview_line (InstallModal_init d opts u)
     = ''[dim cyan]$ '' @ join '' '' (build_command d opts u) @ ''[/dim cyan]'' @ newline @ newline"
    by (simp add: preview_line_def InstallModal_init_def)
  ultimately show ?thesis
    by (simp only: run_installation_spawned init_preview)
qed

lemma map_of_dict_set_same: "map_of (dict_set d k v) k = Some v"
  by (induction d k v rule: dict_set.induct) simp_all

lemma filter_dict_set:
  "filter (\<lambda>kv. fst kv \<noteq> k) (dict_set d k v) = filter (\<lambda>kv. fst kv \<noteq> k) d"
  by (induction d k v rule: dict_set.induct) simp_all

lemma setdefault_append_frame:
  "setdefault_append d oid = Inr st \<Longrightarrow>
     \<exists>d' xs. st = JObj d' \<and> filter (\<lambda>kv. fst kv \<noteq> ''installed'') d' = filter (\<lambda>kv. fst kv \<noteq> ''installed'') d
        \<and> map_of d' ''installed'' = Some (JArr (xs @ [JStr oid]))
        \<and> py_get (JObj d) ''installed'' (JArr []) = Inr (JArr xs)"
  unfolding setdefault_append_def py_get_def
  by (auto split: option.splits json.splits simp: filter_dict_set map_of_dict_set_same map_add_def)

lemma index_remove_frame:
  "index_remove d oid = Inr st \<Longrightarrow>
     \<exists>d' xs. st = JObj d' \<and> filter (\<lambda>kv. fst kv \<noteq> ''installed'') d' = filter (\<lambda>kv. fst kv \<noteq> ''installed'') d
        \<and> map_of d ''installed'' = Some (JArr xs)
        \<and> map_of d' ''installed'' = Some (JArr (list_remove xs (JStr oid)))"
  unfolding index_remove_def
  by (auto split: option.splits json.splits simp: filter_dict_set map_of_dict_set_same)

lemma mark_installed_cases:
  assumes "mark_installed c oid w = Inr w'"
  shows "w' = w \<or>
         (\<exists>d d' xs. load_state c w = Inr (JObj d) \<and> w' = save_state c (JObj d') w
            \<and> filter (\<lambda>kv. fst kv \<noteq> ''installed'') d' = filter (\<lambda>kv. fst kv \<noteq> ''installed'') d
            \<and> py_get (JObj d) ''installed'' (JArr []) = Inr (JArr xs)
            \<and> JStr oid \<notin> set xs
            \<and> map_of d' ''installed'' = Some (JArr (xs @ [JStr oid])))"
proof (cases "load_state c w")
  case (Inl e)
  with assms show ?thesis by (simp add: mark_installed_def)
next
  case (Inr st)
  show ?thesis
  proof (cases st)
    case (JObj d)
    with Inr assms obtain cur where cur: "py_get (JObj d) ''installed'' (JArr []) = Inr cur"
      by (auto simp: mark_installed_def py_get_def split: option.splits)
    with Inr JObj assms obtain b where b: "py_in oid cur = Inr b"
      by (cases "py_in oid cur") (auto simp: mark_installed_def)
    show ?thesis
    proof (cases b)
      case True
      with Inr JObj cur b assms show ?thesis by (simp add: mark_installed_def)
    next
      case False
      with Inr JObj cur b assms obtain st' where
        st': "setdefault_append d oid = Inr st'" and w': "w' = save_state c st' w"
        by (cases "setdefault_append d oid") (auto simp: mark_installed_def)
      from setdefault_append_frame[OF st'] obtain d' xs where
        f: "st' = JObj d'"
           "filter (\<lambda>kv. fst kv \<noteq> ''installed'') d' = filter (\<lambda>kv. fst kv \<noteq> ''installed'') d"
           "map_of d' ''installed'' = Some (JArr (xs @ [JStr oid]))"
           "py_get (JObj d) ''installed'' (JArr []) = Inr (JArr xs)"
        by blast
      from f(4) cur have "cur = JArr xs" by simp
      with b False have "JStr oid \<notin> set xs" by (simp add: py_in_def)
      with Inr JObj w' f show ?thesis by blast
    qed
  qed (use Inr assms in \<open>auto simp: mark_installed_def py_get_def\<close>)
qed

lemma mark_uninstalled_cases:
  assumes "mark_uninstalled c oid w = Inr w'"
  shows "w' = w \<or>
         (\<exists>d d' xs. load_state c w = Inr (JObj d) \<and> w' = save_state c (JObj d') w
            \<and> filter (\<lambda>kv. fst kv \<noteq> ''installed'') d' = filter (\<lambda>kv. fst kv \<noteq> ''installed'') d
            \<and> map_of d ''installed'' = Some (JArr xs)
            \<and> JStr oid \<in> set xs
            \<and> map_of d' ''installed'' = Some (JArr (list_remove xs (JStr oid))))"
proof (cases "load_state c w")
  case (Inl e)
  with assms show ?thesis by (simp add: mark_uninstalled_def)
next
  case (Inr st)
  show ?thesis
  proof (cases st)
    case (JObj d)
    with Inr assms obtain cur where cur: "py_get (JObj d) ''installed'' (JArr []) = Inr cur"
      by (auto simp: mark_uninstalled_def py_get_def split: option.splits)
    with Inr JObj assms obtain b where b: "py_in oid cur = Inr b"
      by (cases "py_in oid cur") (auto simp: mark_uninstalled_def)
    show ?thesis
    proof (cases b)
      case False
      with Inr JObj cur b assms show ?thesis by (simp add: mark_uninstalled_def)
    next
      case True
      with Inr JObj cur b assms obtain st' where
        st': "index_remove d oid = Inr st'" and w': "w' = save_state c st' w"
        by (cases "index_remove d oid") (auto simp: mark_uninstalled_def)
      from index_remove_frame[OF st'] obtain d' xs where
        f: "st' = JObj d'"
           "filter (\<lambda>kv. fst kv \<noteq> ''installed'') d' = filter (\<lambda>kv. fst kv \<noteq> ''installed'') d"
           "map_of d ''installed'' = Some (JArr xs)"
           "map_of d' ''installed'' = Some (JArr (list_remove xs (JStr oid)))"
        by blast
      from f(3) cur have "cur = JArr xs" by (simp add: py_get_def)
      with b True have "JStr oid \<in> set xs" by (simp add: py_in_def)
      with Inr JObj w' f show ?thesis by blast
    qed
  qed (use Inr assms in \<open>auto simp: mark_uninstalled_def py_get_def\<close>)
qed

section \<open>The frame of the two marking operations\<close>

lemma load_state_saved:
  "loads c (dumps c v) = Some v \<Longrightarrow> load_state c (save_state c v w) = Inr v"
  by (simp add: load_state_def save_state_def)

lemma mark_installed_noop:
  "load_state c w = Inr (JObj d) \<Longrightarrow> map_of d ''installed'' = Some (JArr xs) \<Longrightarrow> JStr oid \<in> set xs
     \<Longrightarrow> mark_installed c oid w = Inr w"
  by (simp add: mark_installed_def py_get_def py_in_def)

lemma mark_uninstalled_noop:
  "load_state c w = Inr (JObj d) \<Longrightarrow> py_get (JObj d) ''installed'' (JArr []) = Inr (JArr xs)
     \<Longrightarrow> JStr oid \<notin> set xs \<Longrightarrow> mark_uninstalled c oid w = Inr w"
  by (simp add: mark_uninstalled_def py_in_def)

lemma saved_save_state: "saved (save_state c v w) = saved w @ [v]"
  by (simp add: save_state_def)

text \<open>
  C10. \<open>mark_installed\<close> and \<open>mark_uninstalled\<close> change at most the value under the key
  \<open>installed\<close>: a call that returns either leaves the world as it was, or writes the
  loaded object with every other key, its value and the order of the keys unchanged.
  When the id is already in the list (for \<open>mark_installed\<close>) or not in it (for
  \<open>mark_uninstalled\<close>), the call returns the world unchanged: nothing is written.
\<close>

theorem mark_frame:
  "(mark_installed c oid w = Inr w' \<longrightarrow>
      w' = w \<or>
      (\<exists>d d'. load_state c w = Inr (JObj d) \<and> w' = save_state c (JObj d') w
         \<and> filter (\<lambda>kv. fst kv \<noteq> ''installed'') d' = filter (\<lambda>kv. fst kv \<noteq> ''installed'') d))
   \<and> (mark_uninstalled c oid w = Inr w'' \<longrightarrow>
      w'' = w \<or>
      (\<exists>d d'. load_state c w = Inr (JObj d) \<and> w'' = save_state c (JObj d') w
         \<and> filter (\<lambda>kv. fst kv \<noteq> ''installed'') d' = filter (\<lambda>kv. fst kv \<noteq> ''installed'') d))
   \<and> (load_state c w = Inr (JObj d0) \<and> map_of d0 ''installed'' = Some (JArr xs) \<and> JStr oid \<in> set xs
        \<longrightarrow> mark_installed c oid w = Inr w)
   \<and> (load_state c w = Inr (JObj d0) \<and> py_get (JObj d0) ''installed'' (JArr []) = Inr (JArr ys)
        \<and> JStr oid \<notin> set ys
        \<longrightarrow> mark_uninstalled c oid w = Inr w)"
proof (intro conjI impI)
  assume "mark_installed c oid w = Inr w'"
  from mark_installed_cases[OF this]
  show "w' = w \<or>
      (\<exists>d d'. load_state c w = Inr (JObj d) \<and> w' = save_state c (JObj d') w
         \<and> filter (\<lambda>kv. fst kv \<noteq> ''installed'') d' = filter (\<lambda>kv. fst kv \<noteq> ''installed'') d)"
    by blast
next
  assume "mark_uninstalled c oid w = Inr w''"
  from mark_uninstalled_cases[OF this]
  show "w'' = w \<or>
      (\<exists>d d'. load_state c w = Inr (JObj d) \<and> w'' = save_state c (JObj d') w
         \<and> filter (\<lambda>kv. fst kv \<noteq> ''installed'') d' = filter (\<lambda>kv. fst kv \<noteq> ''installed'') d)"
    by blast
next
  assume "load_state c w = Inr (JObj d0) \<and> map_of d0 ''installed'' = Some (JArr xs) \<and> JStr oid \<in> set xs"
  then show "mark_installed c oid w = Inr w"
    using mark_installed_noop by blast
next
  assume "load_state c w = Inr (JObj d0) \<and> py_get (JObj d0) ''installed'' (JArr []) = Inr (JArr ys)
        \<and> JStr oid \<notin> set ys"
  then show "mark_uninstalled c oid w = Inr w"
    using mark_uninstalled_noop by blast
qed

lemma sample_load: "load_state py_json sample_world = Inr sample_state"
  unfolding load_state_def sample_world_def fresh_world_def py_json_def sample_state_def
  by code_simp

lemma sample_mark_fish:
  "mark_installed py_json ''fish'' sample_world
     = Inr (save_state py_json
              (JObj [(''version'', JInt 1), (''installed'', JArr [JStr ''claude'', JStr ''fish''])])
              sample_world)"
  unfolding mark_installed_def sample_load
  by (simp add: sample_state_def py_get_def py_in_def setdefault_append_def)

lemma sample_unmark_claude:
  "mark_uninstalled py_json ''claude'' sample_world
     = Inr (save_state py_json (JObj [(''version'', JInt 1), (''installed'', JArr [])]) sample_world)"
  unfolding mark_uninstalled_def sample_load
  by (simp add: sample_state_def py_get_def py_in_def index_remove_def)

theorem mark_frame_witness:
  "(\<exists>d d'. load_state py_json sample_world = Inr (JObj d)
       \<and> mark_installed py_json ''fish'' sample_world = Inr (save_state py_json (JObj d') sample_world)
       \<and> filter (\<lambda>kv. fst kv \<noteq> ''installed'') d' = filter (\<lambda>kv. fst kv \<noteq> ''installed'') d)
   \<and> (\<exists>d d'. load_state py_json sample_world = Inr (JObj d)
       \<and> mark_uninstalled py_json ''claude'' sample_world = Inr (save_state py_json (JObj d') sample_world)
       \<and> filter (\<lambda>kv. fst kv \<noteq> ''installed'') d' = filter (\<lambda>kv. fst kv \<noteq> ''installed'') d)
   \<and> mark_installed py_json ''claude'' sample_world = Inr sample_world
   \<and> mark_uninstalled py_json ''fish'' sample_world = Inr sample_world"
proof -
  let ?w1 = "save_state py_json
              (JObj [(''version'', JInt 1), (''installed'', JArr [JStr ''claude'', JStr ''fish''])])
              sample_world"
  let ?w2 = "save_state py_json (JObj [(''version'', JInt 1), (''installed'', JArr [])]) sample_world"
  have ne1: "?w1 \<noteq> sample_world" and ne2: "?w2 \<noteq> sample_world"
    by (auto simp: save_state_def sample_world_def fresh_world_def dest: arg_cong[where f = saved])
  have ld: "load_state py_json sample_world
              = Inr (JObj [(''version'', JInt 1), (''installed'', JArr [JStr ''claude''])])"
    by (simp add: sample_load sample_state_def)
  have m1: "map_of [(''version'', JInt 1), (''installed'', JArr [JStr ''claude''])] ''installed''
              = Some (JArr [JStr ''claude''])"
    by simp
  have g1: "py_get (JObj [(''version'', JInt 1), (''installed'', JArr [JStr ''claude''])]) ''installed'' (JArr [])
              = Inr (JArr [JStr ''claude''])"
    by (simp add: py_get_def)
  note fr = mark_frame[of py_json _ sample_world]
  have a: "\<exists>d d'. load_state py_json sample_world = Inr (JObj d)
       \<and> mark_installed py_json ''fish'' sample_world = Inr (save_state py_json (JObj d') sample_world)
       \<and> filter (\<lambda>kv. fst kv \<noteq> ''installed'') d' = filter (\<lambda>kv. fst kv \<noteq> ''installed'') d"
    using mark_frame[of py_json "''fish''" sample_world ?w1] sample_mark_fish ne1 by auto
  have b: "\<exists>d d'. load_state py_json sample_world = Inr (JObj d)
       \<and> mark_uninstalled py_json ''claude'' sample_world = Inr (save_state py_json (JObj d') sample_world)
       \<and> filter (\<lambda>kv. fst kv \<noteq> ''installed'') d' = filter (\<lambda>kv. fst kv \<noteq> ''installed'') d"
    using mark_frame[of py_json "''claude''" sample_world _ ?w2] sample_unmark_claude ne2 by auto
  have c: "mark_installed py_json ''claude'' sample_world = Inr sample_world"
    using mark_frame[of py_json "''claude''" sample_world _ _
        "[(''version'', JInt 1), (''installed'', JArr [JStr ''claude''])]" "[JStr ''claude'']"] ld m1
    by simp
  have d: "mark_uninstalled py_json ''fish'' sample_world = Inr sample_world"
    using mark_frame[of py_json "''fish''" sample_world _ _
        "[(''version'', JInt 1), (''installed'', JArr [JStr ''claude''])]" _ "[JStr ''claude'']"] ld g1
    by simp
  from a b c d show ?thesis by blast
qed

section \<open>Idempotence, recovery and round trip of the state file\<close>

lemma mark_installed_again:
  assumes "mark_installed c oid w = Inr w1"
    and "saved w1 \<noteq> saved w \<longrightarrow> loads c (dumps c (last (saved w1))) = Some (last (saved w1))"
  shows "mark_installed c oid w1 = Inr w1"
proof -
  from mark_installed_cases[OF assms(1)]
  consider (same) "w1 = w"
    | (wrote) d d' xs where "load_state c w = Inr (JObj d)" "w1 = save_state c (JObj d') w"
        "map_of d' ''installed'' = Some (JArr (xs @ [JStr oid]))"
    by blast
  then show ?thesis
  proof cases
    case same
    with assms(1) show ?thesis by simp
  next
    case wrote
    from wrote(2) have sv: "saved w1 = saved w @ [JObj d']"
      by (simp add: saved_save_state)
    with assms(2) have "loads c (dumps c (JObj d')) = Some (JObj d')" by simp
    with wrote(2) have "load_state c w1 = Inr (JObj d')"
      by (simp add: load_state_saved)
    with wrote(3) show ?thesis
      by (intro mark_installed_noop[where d = d' and xs = "xs @ [JStr oid]"]) simp_all
  qed
qed

lemma mark_installed_once_count:
  assumes "mark_installed c oid w = Inr w1" and "saved w1 \<noteq> saved w"
  shows "\<exists>d xs. last (saved w1) = JObj d \<and> map_of d ''installed'' = Some (JArr xs)
           \<and> count_list xs (JStr oid) = 1"
proof -
  from mark_installed_cases[OF assms(1)] assms(2)
  obtain d d' xs where w: "w1 = save_state c (JObj d') w"
      "JStr oid \<notin> set xs" "map_of d' ''installed'' = Some (JArr (xs @ [JStr oid]))"
    by blast
  from w(2) have "count_list (xs @ [JStr oid]) (JStr oid) = 1"
    by (simp add: count_list_0_iff)
  with w show ?thesis
    by (simp add: saved_save_state)
qed

text \<open>
  C8. \<open>mark_installed\<close> is idempotent. From any world, whatever the state file holds,
  a second call with the same id leaves the world of the first call as it is (nothing
  more is written), so the installed set read afterwards is the same; and when the
  first call wrote, the list it wrote holds the id exactly once. The one assumption is
  about the \<^verbatim>\<open>json\<close> module: the value the first call wrote, if it wrote, is read back
  from its own text.
\<close>

theorem mark_installed_idempotent:
  assumes "saved (settle (mark_installed c oid w) w) \<noteq> saved w \<longrightarrow>
             loads c (dumps c (last (saved (settle (mark_installed c oid w) w))))
               = Some (last (saved (settle (mark_installed c oid w) w)))"
  shows "settle (mark_installed c oid (settle (mark_installed c oid w) w))
                (settle (mark_installed c oid w) w)
           = settle (mark_installed c oid w) w
         \<and> get_installed c (settle (mark_installed c oid (settle (mark_installed c oid w) w))
                              (settle (mark_installed c oid w) w))
           = get_installed c (settle (mark_installed c oid w) w)
         \<and> (saved (settle (mark_installed c oid w) w) \<noteq> saved w \<longrightarrow>
              (\<exists>d xs. last (saved (settle (mark_installed c oid w) w)) = JObj d
                 \<and> map_of d ''installed'' = Some (JArr xs) \<and> count_list xs (JStr oid) = 1))"
proof (cases "mark_installed c oid w")
  case (Inl e)
  then show ?thesis by (simp add: settle_def)
next
  case (Inr w1)
  with assms have "mark_installed c oid w1 = Inr w1"
    by (intro mark_installed_again[OF Inr]) (simp add: settle_def)
  moreover from Inr have "saved w1 \<noteq> saved w \<longrightarrow>
      (\<exists>d xs. last (saved w1) = JObj d \<and> map_of d ''installed'' = Some (JArr xs)
         \<and> count_list xs (JStr oid) = 1)"
    using mark_installed_once_count by blast
  ultimately show ?thesis using Inr by (simp add: settle_def)
qed

lemma absent_mark_claude:
  "mark_installed py_json ''claude'' (fresh_world Absent)
     = Inr (save_state py_json (installed_state [''claude'']) (fresh_world Absent))"
  by (simp add: mark_installed_def load_state_def fresh_world_def empty_state_def py_get_def
      py_in_def setdefault_append_def installed_state_def)

lemma roundtrip_claude:
  "loads py_json (dumps py_json (installed_state [''claude''])) = Some (installed_state [''claude''])"
  unfolding py_json_def installed_state_def by code_simp

theorem mark_installed_idempotent_witness:
  "settle (mark_installed py_json ''claude'' (fresh_world Absent)) (fresh_world Absent)
     = save_state py_json (installed_state [''claude'']) (fresh_world Absent)
   \<and> settle (mark_installed py_json ''claude''
              (save_state py_json (installed_state [''claude'']) (fresh_world Absent)))
        (save_state py_json (installed_state [''claude'']) (fresh_world Absent))
     = save_state py_json (installed_state [''claude'']) (fresh_world Absent)
   \<and> saved (save_state py_json (installed_state [''claude'']) (fresh_world Absent))
       = [installed_state [''claude'']]"
proof -
  have s: "settle (mark_installed py_json ''claude'' (fresh_world Absent)) (fresh_world Absent)
     = save_state py_json (installed_state [''claude'']) (fresh_world Absent)"
    by (simp add: absent_mark_claude settle_def)
  have sv: "saved (save_state py_json (installed_state [''claude'']) (fresh_world Absent))
       = [installed_state [''claude'']]"
    by (simp add: saved_save_state fresh_world_def)
  have rt: "saved (settle (mark_installed py_json ''claude'' (fresh_world Absent)) (fresh_world Absent))
              \<noteq> saved (fresh_world Absent) \<longrightarrow>
            loads py_json (dumps py_json
               (last (saved (settle (mark_installed py_json ''claude'' (fresh_world Absent))
                        (fresh_world Absent)))))
             = Some (last (saved (settle (mark_installed py_json ''claude'' (fresh_world Absent))
                        (fresh_world Absent))))"
    by (simp only: s sv) (simp add: roundtrip_claude)
  from mark_installed_idempotent[OF rt] s sv show ?thesis by simp
qed

lemma load_state_recovers:
  "state_file w = Absent \<or> state_file w = Unreadable \<or> (\<exists>t. state_file w = Text t \<and> loads c t = None)
     \<Longrightarrow> load_state c w = Inr empty_state \<and> get_installed c w = Inr {}"
  by (auto simp: load_state_def get_installed_def empty_state_def py_get_def py_set_def)

text \<open>
  C7. The claim is that loading never fails on a corrupt state file. The code catches
  \<open>JSONDecodeError\<close> and \<open>IOError\<close> only (\<open>load_state_recovers\<close> above covers those and the
  absent file). On a file whose bytes are not valid text, \<^verbatim>\<open>read_text\<close> raises
  \<open>UnicodeDecodeError\<close>, which escapes \<open>load_state\<close>, \<open>get_installed\<close> and the composition of
  the main screen.
\<close>

theorem undecodable_state_file_raises:
  "load_state c (fresh_world Undecodable) = Inl UnicodeDecodeError
   \<and> get_installed c (fresh_world Undecodable) = Inl UnicodeDecodeError
   \<and> MainScreen_compose c d (fresh_world Undecodable) = Inl UnicodeDecodeError"
  by (simp add: load_state_def get_installed_def MainScreen_compose_def fresh_world_def)

lemma get_installed_saved:
  assumes "loads c (dumps c (installed_state ids)) = Some (installed_state ids)"
  shows "get_installed c (save_state c (installed_state ids) w) = Inr (JStr ` set ids)"
proof -
  have "list_all hashable (map JStr ids)"
    by (induction ids) (simp_all add: hashable_def)
  with assms show ?thesis
    by (simp add: get_installed_def load_state_saved installed_state_def py_get_def py_set_def)
qed

text \<open>
  C4, as amended. When the state file holds the text that \<open>save_state\<close> wrote for a
  state, loading gives that state back and saving it again leaves the file
  byte-identical; and for every list of ids, \<open>get_installed\<close> after saving the state that
  holds them is the set of those ids. Both assume that the \<^verbatim>\<open>json\<close> module reads the
  written value back from its text.
\<close>

theorem save_load_roundtrip:
  "(loads c (dumps c v) = Some v \<and> state_file w = Text (dumps c v)
      \<longrightarrow> load_state c w = Inr v \<and> state_file (save_load c w) = state_file w)
   \<and> (loads c (dumps c (installed_state ids)) = Some (installed_state ids)
      \<longrightarrow> get_installed c (save_state c (installed_state ids) w') = Inr (JStr ` set ids))"
proof (intro conjI impI)
  assume "loads c (dumps c v) = Some v \<and> state_file w = Text (dumps c v)"
  then show "load_state c w = Inr v" "state_file (save_load c w) = state_file w"
    by (simp_all add: save_load_def load_state_def save_state_def)
next
  assume "loads c (dumps c (installed_state ids)) = Some (installed_state ids)"
  then show "get_installed c (save_state c (installed_state ids) w') = Inr (JStr ` set ids)"
    by (rule get_installed_saved)
qed

lemma roundtrip_two:
  "loads py_json (dumps py_json (installed_state [''claude'', ''fish'']))
     = Some (installed_state [''claude'', ''fish''])"
  unfolding py_json_def installed_state_def by code_simp

theorem save_load_roundtrip_witness:
  "load_state py_json (save_state py_json (installed_state [''claude'', ''fish'']) (fresh_world Absent))
     = Inr (installed_state [''claude'', ''fish''])
   \<and> state_file (save_load py_json
        (save_state py_json (installed_state [''claude'', ''fish'']) (fresh_world Absent)))
     = state_file (save_state py_json (installed_state [''claude'', ''fish'']) (fresh_world Absent))
   \<and> get_installed py_json
        (save_state py_json (installed_state [''claude'', ''fish'']) (fresh_world Absent))
     = Inr {JStr ''claude'', JStr ''fish''}"
  using save_load_roundtrip[of py_json "installed_state [''claude'', ''fish'']"
      "save_state py_json (installed_state [''claude'', ''fish'']) (fresh_world Absent)"
      "[''claude'', ''fish'']" "fresh_world Absent"] roundtrip_two
  by (simp add: save_state_def)

text \<open>
  C4 as stated fails on a state file that was not written by \<open>save_state\<close>: the compact
  text \<^verbatim>\<open>{"installed":[]}\<close> loads as the empty state, and saving it writes the
  indented form, a different text.
\<close>

theorem save_load_reformats:
  "load_state py_json compact_world = Inr (JObj [(''installed'', JArr [])])
   \<and> state_file (save_load py_json compact_world)
       = Text (''{'' @ newline @ ''  '' @ [dquote] @ ''installed'' @ [dquote] @ '': []'' @ newline @ ''}'')
   \<and> state_file (save_load py_json compact_world) \<noteq> state_file compact_world"
  unfolding save_load_def load_state_def save_state_def compact_world_def fresh_world_def py_json_def
  by code_simp

section \<open>Selecting all, and the life of the modal\<close>

lemma toggle_unselected:
  "\<not> selected item \<Longrightarrow> toggle_selection item
     = (item\<lparr>selected := True\<rparr>, Selected (option_id (option item)) True)"
  by (simp add: toggle_selection_def)

lemma selected_already: "selected item \<Longrightarrow> item\<lparr>selected := True\<rparr> = item"
  by simp

lemma select_all_loop_rows:
  "fst (select_all_loop e m)
     = map (\<lambda>kv. (fst kv, if e \<and> excluded_from_all (option (snd kv)) then snd kv
                            else (snd kv)\<lparr>selected := True\<rparr>)) m"
  by (induction m) (auto simp: split_beta Let_def toggle_unselected selected_already)

lemma select_all_loop_msgs:
  "snd (select_all_loop e m)
     = map (\<lambda>kv. Selected (option_id (option (snd kv))) True)
         (filter (\<lambda>kv. \<not> (e \<and> excluded_from_all (option (snd kv))) \<and> \<not> selected (snd kv)) m)"
  by (induction m) (auto simp: split_beta Let_def toggle_unselected selected_already)

lemma options_map_select_all:
  "options_map (select_all ol e)
     = map (\<lambda>kv. (fst kv, if e \<and> excluded_from_all (option (snd kv)) then snd kv
                            else (snd kv)\<lparr>selected := True\<rparr>)) (options_map ol)"
  by (simp add: select_all_def split_beta select_all_loop_rows)

lemma posted_select_all:
  "posted (select_all ol e)
     = posted ol @ map (\<lambda>kv. Selected (option_id (option (snd kv))) True)
         (filter (\<lambda>kv. \<not> (e \<and> excluded_from_all (option (snd kv))) \<and> \<not> selected (snd kv))
            (options_map ol))"
  by (simp add: select_all_def split_beta select_all_loop_msgs)

lemma selected_after_select_all:
  "get_selected_options (select_all ol e)
     = map fst (filter (\<lambda>kv. selected (snd kv) \<or> \<not> (e \<and> excluded_from_all (option (snd kv))))
                  (options_map ol))"
proof -
  have "map fst (filter (\<lambda>kv. selected (snd kv))
          (map (\<lambda>kv. (fst kv, if e \<and> excluded_from_all (option (snd kv)) then snd kv
                            else (snd kv)\<lparr>selected := True\<rparr>)) m))
        = map fst (filter (\<lambda>kv. selected (snd kv) \<or> \<not> (e \<and> excluded_from_all (option (snd kv)))) m)"
    for m :: "(string \<times> OptionItem) list"
    by (induction m) auto
  then show ?thesis
    by (simp add: get_selected_options_def options_map_select_all)
qed

lemma select_all_twice_rows:
  "options_map (select_all (select_all ol e) e) = options_map (select_all ol e)"
  by (simp add: options_map_select_all o_def cong: map_cong)

lemma select_all_twice_posted:
  "posted (select_all (select_all ol e) e) = posted (select_all ol e)"
proof -
  have "filter (\<lambda>kv. \<not> (e \<and> excluded_from_all (option (snd kv))) \<and> \<not> selected (snd kv))
          (options_map (select_all ol e)) = []"
    by (simp add: options_map_select_all filter_empty_conv)
  then show ?thesis
    by (simp add: posted_select_all[of "select_all ol e"])
qed

text \<open>
  C3, as amended. After \<open>select_all\<close> with \<open>exclude_special\<close> the selected ids are those
  that were selected before together with those of the items not excluded from "all"
  (in the order of the list); this is exactly the set of non-excluded items when no
  excluded item was selected before. Without \<open>exclude_special\<close> every item is selected.
  One \<open>Selected\<close> message is posted for each item the call selects and none for an item
  already selected or skipped, so a second call changes no row and posts nothing.
\<close>

theorem select_all_selects:
  "get_selected_options (select_all ol True)
     = map fst (filter (\<lambda>kv. selected (snd kv) \<or> \<not> excluded_from_all (option (snd kv)))
                  (options_map ol))
   \<and> ((\<forall>kv \<in> set (options_map ol). excluded_from_all (option (snd kv)) \<longrightarrow> \<not> selected (snd kv))
        \<longrightarrow> get_selected_options (select_all ol True)
             = map fst (filter (\<lambda>kv. \<not> excluded_from_all (option (snd kv))) (options_map ol)))
   \<and> get_selected_options (select_all ol False) = map fst (options_map ol)
   \<and> posted (select_all ol e)
       = posted ol @ map (\<lambda>kv. Selected (option_id (option (snd kv))) True)
           (filter (\<lambda>kv. \<not> (e \<and> excluded_from_all (option (snd kv))) \<and> \<not> selected (snd kv))
              (options_map ol))
   \<and> options_map (select_all (select_all ol e) e) = options_map (select_all ol e)
   \<and> posted (select_all (select_all ol e) e) = posted (select_all ol e)"
proof -
  have "(\<forall>kv \<in> set (options_map ol). excluded_from_all (option (snd kv)) \<longrightarrow> \<not> selected (snd kv))
        \<longrightarrow> get_selected_options (select_all ol True)
             = map fst (filter (\<lambda>kv. \<not> excluded_from_all (option (snd kv))) (options_map ol))"
  proof
    assume a: "\<forall>kv \<in> set (options_map ol). excluded_from_all (option (snd kv)) \<longrightarrow> \<not> selected (snd kv)"
    have "filter (\<lambda>kv. selected (snd kv) \<or> \<not> excluded_from_all (option (snd kv))) (options_map ol)
            = filter (\<lambda>kv. \<not> excluded_from_all (option (snd kv))) (options_map ol)"
      by (rule filter_cong) (use a in auto)
    then show "get_selected_options (select_all ol True)
             = map fst (filter (\<lambda>kv. \<not> excluded_from_all (option (snd kv))) (options_map ol))"
      by (simp add: selected_after_select_all)
  qed
  moreover have "get_selected_options (select_all ol False) = map fst (options_map ol)"
    by (simp add: selected_after_select_all)
  moreover have "get_selected_options (select_all ol True)
     = map fst (filter (\<lambda>kv. selected (snd kv) \<or> \<not> excluded_from_all (option (snd kv)))
                  (options_map ol))"
    by (simp add: selected_after_select_all)
  ultimately show ?thesis
    using posted_select_all[of ol e] select_all_twice_rows[of ol e] select_all_twice_posted[of ol e]
    by blast
qed

lemma first_list_all:
  "map option_id get_options_for_all
     = [''claude'', ''codex'', ''screensaver'', ''plymouth'', ''fish'', ''hyprland'', ''waycorner'',
        ''waybar'', ''ssh'', ''brave'', ''noctalia'', ''looknfeel'']"
  by code_simp

text \<open>
  C3 as stated fails when an excluded item is already selected: after the user has
  toggled the mainline kernel, \<open>select_all\<close> with \<open>exclude_special\<close> skips that row, so it
  stays selected and the selection is not the set of the non-excluded options.
\<close>

theorem select_all_exact_counterexample:
  "''mainline'' \<in> set (get_selected_options (select_all mainline_list True))
   \<and> ''mainline'' \<notin> set (map option_id get_options_for_all)
   \<and> set (get_selected_options (select_all mainline_list True)) \<noteq> set (map option_id get_options_for_all)"
proof -
  have a: "''mainline'' \<in> set (get_selected_options (select_all mainline_list True))"
    unfolding mainline_list_def first_list_def by code_simp
  have b: "''mainline'' \<notin> set (map option_id get_options_for_all)"
    by (simp add: first_list_all)
  from a b show ?thesis by blast
qed


theorem select_all_selects_witness:
  "get_selected_options (select_all first_list True)
     = [''claude'', ''codex'', ''screensaver'', ''plymouth'', ''fish'', ''hyprland'', ''waycorner'',
        ''waybar'', ''ssh'', ''brave'', ''noctalia'', ''looknfeel'']
   \<and> get_selected_options (select_all first_list False) = map fst (options_map first_list)
   \<and> posted (select_all (select_all first_list True) True) = posted (select_all first_list True)"
proof -
  have h: "\<forall>kv \<in> set (options_map first_list).
             excluded_from_all (option (snd kv)) \<longrightarrow> \<not> selected (snd kv)"
    unfolding first_list_def by code_simp
  have v: "map fst (filter (\<lambda>kv. \<not> excluded_from_all (option (snd kv))) (options_map first_list))
     = [''claude'', ''codex'', ''screensaver'', ''plymouth'', ''fish'', ''hyprland'', ''waycorner'',
        ''waybar'', ''ssh'', ''brave'', ''noctalia'', ''looknfeel'']"
    unfolding first_list_def by code_simp
  from select_all_selects[of first_list True] h v show ?thesis
    using select_all_selects[of first_list False] by simp
qed

lemma reachable_invariant:
  "reachable d opts u s \<Longrightarrow>
     (fst s = Ended \<longleftrightarrow> completed (snd s))
     \<and> (\<not> completed (snd s) \<longrightarrow> close_disabled (snd s) \<and> dismissed (snd s) = None)
     \<and> (\<forall>b. dismissed (snd s) = Some b \<longrightarrow> b = success (snd s))"
proof (induction rule: reachable.induct)
  case (init d opts u)
  show ?case by (simp add: InstallModal_init_def)
next
  case (step d opts u s s')
  from step.hyps(2) step.IH show ?case
  proof (cases rule: modal_run.cases)
    case (start m)
    with step.IH show ?thesis by simp
  next
    case (line m l)
    with step.IH show ?thesis by simp
  next
    case (finish m r)
    with step.IH show ?thesis by (auto simp: finish_task_def split: sum.splits)
  next
    case (escape m p)
    with step.IH show ?thesis by (auto simp: action_cancel_def dismiss_def)
  next
    case (press m p)
    with step.IH show ?thesis by (auto simp: on_button_pressed_def dismiss_def)
  qed
qed

text \<open>
  C9. In every state the modal can reach, while the run has not completed the escape
  action changes nothing and dismisses nothing, the Close button is disabled and the
  modal is not dismissed; and a modal that has been dismissed has completed its run
  (the worker has ended) and was dismissed with its \<open>success\<close> flag.
\<close>

theorem no_dismissal_while_running:
  assumes "reachable d opts u (p, m)"
  shows "(\<not> completed m \<longrightarrow> action_cancel m = m \<and> dismissed (action_cancel m) = None
            \<and> dismissed m = None \<and> close_disabled m \<and> p \<noteq> Ended)
         \<and> (\<forall>b. dismissed m = Some b \<longrightarrow> completed m \<and> p = Ended \<and> b = success m)"
  using reachable_invariant[OF assms] by (auto simp: action_cancel_def)

lemma reachable_lines:
  "reachable d opts u (Streaming, m)
     \<Longrightarrow> reachable d opts u (Streaming, m\<lparr>output_log := foldl (\<lambda>l line. output_handler line l) (output_log m) ls\<rparr>)"
proof (induction ls arbitrary: m)
  case Nil
  then show ?case by simp
next
  case (Cons l ls)
  from Cons.prems have "reachable d opts u (Streaming, m\<lparr>output_log := output_handler l (output_log m)\<rparr>)"
    by (rule reachable.step) (rule modal_run.line)
  from Cons.IH[OF this] show ?case by simp
qed

lemma task_reachable:
  "reachable d opts u (Ended, fst (run_installation_task os (InstallModal_init d opts u) w))"
proof -
  let ?m = "InstallModal_init d opts u"
  obtain r lg' w' where run:
    "run_installation os (script_dir ?m) (options ?m) (uninstall ?m) (Some output_handler)
       (output_log ?m @ [preview_line ?m], w) = (r, lg', w')"
    by (metis prod_cases3)
  have "lg' = fst (snd (run_installation os (script_dir ?m) (options ?m) (uninstall ?m)
                 (Some output_handler) (output_log ?m @ [preview_line ?m], w)))"
    by (simp add: run)
  then obtain ls where lg': "lg' = foldl (\<lambda>l line. output_handler line l) (output_log ?m @ [preview_line ?m]) ls"
    by (simp add: run_installation_log)
  have "reachable d opts u (Streaming, ?m\<lparr>output_log := output_log ?m @ [preview_line ?m]\<rparr>)"
    by (rule reachable.step[OF reachable.init]) (rule modal_run.start)
  from reachable_lines[OF this, of ls]
  have "reachable d opts u (Streaming, ?m\<lparr>output_log := lg'\<rparr>)"
    by (simp add: lg')
  then have "reachable d opts u (Ended, finish_task r (?m\<lparr>output_log := lg'\<rparr>))"
    by (rule reachable.step) (rule modal_run.finish)
  then show ?thesis
    by (simp add: run_installation_task_def run)
qed

theorem no_dismissal_while_running_witness:
  "action_cancel ((InstallModal_init ''/d'' [''a''] False)
       \<lparr>output_log := [preview_line (InstallModal_init ''/d'' [''a''] False)]\<rparr>)
     = (InstallModal_init ''/d'' [''a''] False)
         \<lparr>output_log := [preview_line (InstallModal_init ''/d'' [''a''] False)]\<rparr>
   \<and> dismissed (action_cancel ((InstallModal_init ''/d'' [''a''] False)
       \<lparr>output_log := [preview_line (InstallModal_init ''/d'' [''a''] False)]\<rparr>)) = None
   \<and> completed (fst (run_installation_task (\<lambda>argv cwd. Exited [] 0)
                       (InstallModal_init ''/d'' [''a''] False) (fresh_world Absent)))
   \<and> dismissed (action_cancel (fst (run_installation_task (\<lambda>argv cwd. Exited [] 0)
                       (InstallModal_init ''/d'' [''a''] False) (fresh_world Absent)))) = Some True"
proof -
  let ?m0 = "InstallModal_init ''/d'' [''a''] False"
  let ?m1 = "?m0\<lparr>output_log := [preview_line ?m0]\<rparr>"
  have r1: "reachable ''/d'' [''a''] False (Streaming, ?m1)"
    using reachable.step[OF reachable.init modal_run.start, of "''/d''" "[''a'']" False]
    by (simp add: InstallModal_init_def)
  have nc: "\<not> completed ?m1" by (simp add: InstallModal_init_def)
  from no_dismissal_while_running[OF r1] nc
  have a: "action_cancel ?m1 = ?m1 \<and> dismissed (action_cancel ?m1) = None" by blast
  let ?m2 = "fst (run_installation_task (\<lambda>argv cwd. Exited [] 0) ?m0 (fresh_world Absent))"
  have c: "completed ?m2 \<and> success ?m2"
    by (simp add: run_installation_task_def run_installation_def finish_task_def Let_def)
  then have b: "dismissed (action_cancel ?m2) = Some True"
    by (simp add: action_cancel_def dismiss_def)
  from a b c show ?thesis by blast
qed

section \<open>A run from the key press to the callback\<close>















lemma task_success:
  "os (build_command (script_dir m) (options m) (uninstall m)) (script_dir m) = Exited ls code
     \<Longrightarrow> success (fst (run_installation_task os m w)) = (code = 0)
         \<and> completed (fst (run_installation_task os m w))"
  unfolding run_installation_task_def Let_def
  by (simp add: split_beta run_installation_result finish_task_def)

lemma task_raised:
  "os (build_command (script_dir m) (options m) (uninstall m)) (script_dir m) = Raised ls msg
     \<Longrightarrow> \<not> success (fst (run_installation_task os m w))
         \<and> completed (fst (run_installation_task os m w))"
  unfolding run_installation_task_def Let_def
  by (simp add: split_beta run_installation_result finish_task_def)

lemma InstallModal_init_sel:
  "script_dir (InstallModal_init d opts u) = d"
  "options (InstallModal_init d opts u) = opts"
  "uninstall (InstallModal_init d opts u) = u"
  by (simp_all add: InstallModal_init_def)

lemma install_run_unfold:
  assumes "get_selected_options (option_list ms) \<noteq> []"
  shows "install_run c os (ms, w)
     = (let m = InstallModal_init (main_script_dir ms) (get_selected_options (option_list ms)) False;
            m' = fst (run_installation_task os m w);
            w' = w\<lparr>spawned := spawned w @ [(build_command (main_script_dir ms)
                       (get_selected_options (option_list ms)) False, main_script_dir ms)]\<rparr>;
            ms1 = set_status ms (''[cyan]Installing ''
                     @ str_nat (length (get_selected_options (option_list ms))) @ '' option(s)...[/cyan]'')
        in case dismissed (action_cancel m') of
             None \<Rightarrow> ((ms1, w'), None)
           | Some ok \<Rightarrow> on_complete_install c (get_selected_options (option_list ms)) ok (ms1, w'))"
proof -
  have "snd (run_installation_task os
          (InstallModal_init (main_script_dir ms) (get_selected_options (option_list ms)) False) w)
        = w\<lparr>spawned := spawned w @ [(build_command (main_script_dir ms)
                       (get_selected_options (option_list ms)) False, main_script_dir ms)]\<rparr>"
    by (simp add: task_world InstallModal_init_sel)
  with assms show ?thesis
    by (cases "dismissed (action_cancel (fst (run_installation_task os
          (InstallModal_init (main_script_dir ms) (get_selected_options (option_list ms)) False) w)))")
       (simp_all add: install_run_def action_install_def Let_def split_beta InstallModal_init_sel)
qed

lemma uninstall_run_unfold:
  assumes "get_selected_options (option_list ms) \<noteq> []"
  shows "uninstall_run c os (ms, w)
     = (let m = InstallModal_init (main_script_dir ms) (get_selected_options (option_list ms)) True;
            m' = fst (run_installation_task os m w);
            w' = w\<lparr>spawned := spawned w @ [(build_command (main_script_dir ms)
                       (get_selected_options (option_list ms)) True, main_script_dir ms)]\<rparr>;
            ms1 = set_status ms (''[cyan]Uninstalling ''
                     @ str_nat (length (get_selected_options (option_list ms))) @ '' option(s)...[/cyan]'')
        in case dismissed (action_cancel m') of
             None \<Rightarrow> ((ms1, w'), None)
           | Some ok \<Rightarrow> on_complete_uninstall c (get_selected_options (option_list ms)) ok (ms1, w'))"
proof -
  have "snd (run_installation_task os
          (InstallModal_init (main_script_dir ms) (get_selected_options (option_list ms)) True) w)
        = w\<lparr>spawned := spawned w @ [(build_command (main_script_dir ms)
                       (get_selected_options (option_list ms)) True, main_script_dir ms)]\<rparr>"
    by (simp add: task_world InstallModal_init_sel)
  with assms show ?thesis
    by (cases "dismissed (action_cancel (fst (run_installation_task os
          (InstallModal_init (main_script_dir ms) (get_selected_options (option_list ms)) True) w)))")
       (simp_all add: uninstall_run_def action_uninstall_def Let_def split_beta InstallModal_init_sel)
qed

lemma dismissed_after_task:
  assumes "completed m'"
  shows "dismissed (action_cancel m') = Some (success m')"
  using assms by (simp add: action_cancel_def dismiss_def)

lemma failed_install_run:
  assumes sel: "get_selected_options (option_list ms) \<noteq> []"
    and bad: "\<forall>ls. os (build_command (main_script_dir ms) (get_selected_options (option_list ms)) False)
                 (main_script_dir ms) \<noteq> Exited ls 0"
  shows "install_run c os (ms, w)
     = ((set_status ms ''[red]Installation failed[/red]'',
         w\<lparr>spawned := spawned w @ [(build_command (main_script_dir ms)
                       (get_selected_options (option_list ms)) False, main_script_dir ms)]\<rparr>), None)"
proof -
  let ?m = "InstallModal_init (main_script_dir ms) (get_selected_options (option_list ms)) False"
  let ?m' = "fst (run_installation_task os ?m w)"
  have f: "script_dir ?m = main_script_dir ms" "options ?m = get_selected_options (option_list ms)"
    "uninstall ?m = False"
    by (simp_all add: InstallModal_init_def)
  have "completed ?m' \<and> \<not> success ?m'"
  proof (cases "os (build_command (main_script_dir ms) (get_selected_options (option_list ms)) False)
                 (main_script_dir ms)")
    case (Exited ls code)
    with bad have "code \<noteq> 0" by auto
    with task_success[of os ?m ls code w] Exited f show ?thesis by simp
  next
    case (Raised ls msg)
    with task_raised[of os ?m ls msg w] f show ?thesis by simp
  qed
  then have "dismissed (action_cancel ?m') = Some False"
    by (simp add: dismissed_after_task)
  then show ?thesis
    by (simp add: install_run_unfold[OF sel] Let_def on_complete_install_def set_status_def)
qed

lemma failed_uninstall_run:
  assumes sel: "get_selected_options (option_list ms) \<noteq> []"
    and bad: "\<forall>ls. os (build_command (main_script_dir ms) (get_selected_options (option_list ms)) True)
                 (main_script_dir ms) \<noteq> Exited ls 0"
  shows "uninstall_run c os (ms, w)
     = ((set_status ms ''[red]Uninstall failed[/red]'',
         w\<lparr>spawned := spawned w @ [(build_command (main_script_dir ms)
                       (get_selected_options (option_list ms)) True, main_script_dir ms)]\<rparr>), None)"
proof -
  let ?m = "InstallModal_init (main_script_dir ms) (get_selected_options (option_list ms)) True"
  let ?m' = "fst (run_installation_task os ?m w)"
  have f: "script_dir ?m = main_script_dir ms" "options ?m = get_selected_options (option_list ms)"
    "uninstall ?m = True"
    by (simp_all add: InstallModal_init_def)
  have "completed ?m' \<and> \<not> success ?m'"
  proof (cases "os (build_command (main_script_dir ms) (get_selected_options (option_list ms)) True)
                 (main_script_dir ms)")
    case (Exited ls code)
    with bad have "code \<noteq> 0" by auto
    with task_success[of os ?m ls code w] Exited f show ?thesis by simp
  next
    case (Raised ls msg)
    with task_raised[of os ?m ls msg w] f show ?thesis by simp
  qed
  then have "dismissed (action_cancel ?m') = Some False"
    by (simp add: dismissed_after_task)
  then show ?thesis
    by (simp add: uninstall_run_unfold[OF sel] Let_def on_complete_uninstall_def set_status_def)
qed

text \<open>
  C2, as amended. When the installer does not exit with code 0 (a non-zero exit code, or
  an exception of the runner), a run of the install or of the uninstall action ends
  without touching the state file: nothing is saved, no id is added, and the option
  list is left as it was, every item with the status and the selection it had. Only
  the status line reports the failure.
\<close>

theorem failed_run_changes_nothing:
  assumes "get_selected_options (option_list ms) \<noteq> []"
  shows "((\<forall>ls. os (build_command (main_script_dir ms) (get_selected_options (option_list ms)) False)
                 (main_script_dir ms) \<noteq> Exited ls 0) \<longrightarrow>
          snd (install_run c os (ms, w)) = None
          \<and> state_file (snd (fst (install_run c os (ms, w)))) = state_file w
          \<and> saved (snd (fst (install_run c os (ms, w)))) = saved w
          \<and> option_list (fst (fst (install_run c os (ms, w)))) = option_list ms
          \<and> status_bar (fst (fst (install_run c os (ms, w)))) = ''[red]Installation failed[/red]'')
       \<and> ((\<forall>ls. os (build_command (main_script_dir ms) (get_selected_options (option_list ms)) True)
                 (main_script_dir ms) \<noteq> Exited ls 0) \<longrightarrow>
          snd (uninstall_run c os (ms, w)) = None
          \<and> state_file (snd (fst (uninstall_run c os (ms, w)))) = state_file w
          \<and> saved (snd (fst (uninstall_run c os (ms, w)))) = saved w
          \<and> option_list (fst (fst (uninstall_run c os (ms, w)))) = option_list ms
          \<and> status_bar (fst (fst (uninstall_run c os (ms, w)))) = ''[red]Uninstall failed[/red]'')"
proof (intro conjI impI)
  assume "\<forall>ls. os (build_command (main_script_dir ms) (get_selected_options (option_list ms)) False)
                 (main_script_dir ms) \<noteq> Exited ls 0"
  from failed_install_run[where os = os and ms = ms and c = c and w = w, OF assms this]
  show "snd (install_run c os (ms, w)) = None"
    "state_file (snd (fst (install_run c os (ms, w)))) = state_file w"
    "saved (snd (fst (install_run c os (ms, w)))) = saved w"
    "option_list (fst (fst (install_run c os (ms, w)))) = option_list ms"
    "status_bar (fst (fst (install_run c os (ms, w)))) = ''[red]Installation failed[/red]''"
    by (simp_all add: set_status_def)
next
  assume "\<forall>ls. os (build_command (main_script_dir ms) (get_selected_options (option_list ms)) True)
                 (main_script_dir ms) \<noteq> Exited ls 0"
  from failed_uninstall_run[where os = os and ms = ms and c = c and w = w, OF assms this]
  show "snd (uninstall_run c os (ms, w)) = None"
    "state_file (snd (fst (uninstall_run c os (ms, w)))) = state_file w"
    "saved (snd (fst (uninstall_run c os (ms, w)))) = saved w"
    "option_list (fst (fst (uninstall_run c os (ms, w)))) = option_list ms"
    "status_bar (fst (fst (uninstall_run c os (ms, w)))) = ''[red]Uninstall failed[/red]''"
    by (simp_all add: set_status_def)
qed

lemma sample_selected: "get_selected_options (option_list sample_screen) = [''claude'', ''fish'']"
  unfolding sample_screen_def first_list_def by code_simp

theorem failed_run_changes_nothing_witness:
  "snd (install_run py_json failing_os (sample_screen, fresh_world Absent)) = None
   \<and> state_file (snd (fst (install_run py_json failing_os (sample_screen, fresh_world Absent)))) = Absent
   \<and> saved (snd (fst (install_run py_json failing_os (sample_screen, fresh_world Absent)))) = []
   \<and> option_list (fst (fst (install_run py_json failing_os (sample_screen, fresh_world Absent))))
       = option_list sample_screen
   \<and> state_file (snd (fst (uninstall_run py_json failing_os (sample_screen, fresh_world Absent)))) = Absent"
proof -
  have sel: "get_selected_options (option_list sample_screen) \<noteq> []"
    by (simp add: sample_selected)
  have bad: "\<forall>ls. failing_os (build_command (main_script_dir sample_screen)
                (get_selected_options (option_list sample_screen)) False) (main_script_dir sample_screen)
              \<noteq> Exited ls 0"
    "\<forall>ls. failing_os (build_command (main_script_dir sample_screen)
                (get_selected_options (option_list sample_screen)) True) (main_script_dir sample_screen)
              \<noteq> Exited ls 0"
    by (simp_all add: failing_os_def)
  from failed_run_changes_nothing[where ms = sample_screen and os = failing_os and c = py_json
      and w = "fresh_world Absent", OF sel] bad
  show ?thesis by (simp add: fresh_world_def)
qed

text \<open>
  C2 as stated fails in its last part: after a run for \<open>claude\<close> and \<open>fish\<close> whose installer
  exits with code 1, both items still have status \<open>pending\<close>, not \<open>failed\<close>. The callback
  of the main screen never calls \<open>set_option_status\<close>.
\<close>

theorem failed_run_status_counterexample:
  "get_selected_options (option_list sample_screen) = [''claude'', ''fish'']
   \<and> map_option status
        (map_of (options_map (option_list (fst (fst
           (install_run py_json failing_os (sample_screen, fresh_world Absent)))))) ''claude'')
       = Some ''pending''
   \<and> map_option status
        (map_of (options_map (option_list (fst (fst
           (install_run py_json failing_os (sample_screen, fresh_world Absent)))))) ''fish'')
       = Some ''pending''
   \<and> ''pending'' \<noteq> ''failed''"
  unfolding sample_screen_def first_list_def by code_simp






end
